theory Spec2Isabelle
  imports Complex_Main "HOL-Library.AList"
begin

section \<open>Python values shared by all components\<close>

text \<open>
  A raised Python exception is a value carrying its message; a call that may raise returns
  \<open>py_error + 'a\<close> with \<open>Inl\<close> for the exception.  A Python \<open>dict\<close> whose iteration
  order matters is an association list with distinct keys; \<open>d[k] = v\<close> is
  \<open>AList.update k v d\<close> (replace in place, or append at the end) and \<open>d.get(k)\<close> is
  \<open>map_of d k\<close>.  Python floats that are small sums of the constants in the code are
  modelled by exact rationals.  Message texts, many of them Chinese in the source, are
  kept as structured values or given in English.
\<close>

datatype py_error = PyException string

type_synonym 'v py_dict = "(string \<times> 'v) list"

section \<open>Parsed documents (the BeautifulSoup capability used by the code)\<close>

text \<open>
  Of a parsed element the code reads only its parent and the parent's \<open>class\<close> attribute
  (a list of class tokens, absent when the attribute is missing).  Of a document it uses
  only \<open>soup.select(selector)\<close>, which returns the matched elements or raises on a
  selector it cannot parse.
\<close>

datatype tag = Tag (tag_name: string) (tag_class: "string list option") (tag_parent: "tag option")

record soup =
  select :: "string \<Rightarrow> py_error + tag list"

section \<open>PageAnalyzer.validate_selectors (app/core/ai/page_analyzer.py)\<close>

text \<open>
  The formatted note and suggestion strings are kept as structured values.  The key
  \<open>"notes"\<close> of a selector result is the field \<open>note_text\<close>.
\<close>

datatype result_note = FoundElements nat | NoElementsFound | SelectorError py_error

datatype suggestion =
    SelectorInvalid string
  | SelectorFoundNothing string
  | ValidationFailed py_error

record selector_result =
  valid :: bool
  count :: nat
  selector :: string
  note_text :: result_note

record validation_result =
  overall_score :: rat
  selector_results :: "selector_result py_dict"
  suggestions :: "suggestion list"

text \<open>
  The loop \<open>for key, selector in selectors.items()\<close>; its state is the counter
  \<open>valid_selectors\<close> and the dictionary \<open>selector_results\<close>.
\<close>

fun validate_loop ::
  "soup \<Rightarrow> string py_dict \<Rightarrow> nat \<times> selector_result py_dict \<Rightarrow> nat \<times> selector_result py_dict"
where
  "validate_loop doc [] acc = acc"
| "validate_loop doc ((key, sel) # rest) (valid_selectors, results) =
     (case select doc sel of
        Inr elements \<Rightarrow>
          (let cnt = length elements;
               is_valid = cnt > 0;
               valid_selectors' = (if is_valid then valid_selectors + 1 else valid_selectors)
           in validate_loop doc rest
                (valid_selectors',
                 AList.update key
                   \<lparr>valid = is_valid, count = cnt, selector = sel,
                    note_text = (if cnt > 0 then FoundElements cnt else NoElementsFound)\<rparr>
                   results))
      | Inl e \<Rightarrow>
          validate_loop doc rest
            (valid_selectors,
             AList.update key
               \<lparr>valid = False, count = 0, selector = sel, note_text = SelectorError e\<rparr>
               results))"

fun make_suggestions :: "selector_result py_dict \<Rightarrow> suggestion list" where
  "make_suggestions [] = []"
| "make_suggestions ((key, result) # rest) =
     (if \<not> valid result then SelectorInvalid key # make_suggestions rest
      else if count result = 0 then SelectorFoundNothing key # make_suggestions rest
      else make_suggestions rest)"

text \<open>
  \<open>parse_html\<close> stands for \<open>BeautifulSoup(html_content, 'html.parser')\<close>; when it raises,
  the outer handler returns the all-zero report.
\<close>

definition validate_selectors ::
  "(string \<Rightarrow> py_error + soup) \<Rightarrow> string py_dict \<Rightarrow> string \<Rightarrow> validation_result"
where
  "validate_selectors parse_html selectors html_content =
     (case parse_html html_content of
        Inl e \<Rightarrow>
          \<lparr>overall_score = 0, selector_results = [], suggestions = [ValidationFailed e]\<rparr>
      | Inr doc \<Rightarrow>
          (let total_selectors = length selectors;
               (valid_selectors, results) = validate_loop doc selectors (0, [])
           in \<lparr>overall_score =
                  (if total_selectors > 0
                   then of_nat valid_selectors / of_nat total_selectors else 0),
                selector_results = results,
                suggestions = make_suggestions results\<rparr>))"

text \<open>A role "matches" when its locator evaluates without raising to a non-empty list.\<close>

definition role_matches :: "soup \<Rightarrow> string py_dict \<Rightarrow> string \<Rightarrow> bool" where
  "role_matches doc selectors key =
     (case map_of selectors key of
        None \<Rightarrow> False
      | Some sel \<Rightarrow> (case select doc sel of Inl e \<Rightarrow> False | Inr elements \<Rightarrow> elements \<noteq> []))"

section \<open>Python string operations used by the selector generator\<close>

text \<open>
  Selectors are modelled as ASCII strings.  \<open>str.split()\<close> splits at runs of
  whitespace, \<open>sep.join\<close> concatenates with a separator, \<open>str.lower\<close> maps the
  upper-case letters, \<open>kw in s\<close> is the substring test.
\<close>

definition is_space :: "char \<Rightarrow> bool" where
  "is_space c = (c \<in> set [CHR 0x09, CHR 0x0A, CHR 0x0B, CHR 0x0C, CHR 0x0D,
                            CHR 0x1C, CHR 0x1D, CHR 0x1E, CHR 0x1F, CHR 0x20])"

fun split_from :: "string \<Rightarrow> string \<Rightarrow> string list" where
  "split_from cur [] = (if cur = [] then [] else [cur])"
| "split_from cur (c # cs) =
     (if is_space c then (if cur = [] then split_from [] cs else cur # split_from [] cs)
      else split_from (cur @ [c]) cs)"

definition py_split :: "string \<Rightarrow> string list" where
  "py_split s = split_from [] s"

fun py_join :: "string \<Rightarrow> string list \<Rightarrow> string" where
  "py_join sep [] = []"
| "py_join sep [x] = x"
| "py_join sep (x # y # ys) = x @ sep @ py_join sep (y # ys)"

definition py_lower :: "string \<Rightarrow> string" where
  "py_lower s =
     map (\<lambda>c. let n = (of_char c :: nat) in if 65 \<le> n \<and> n \<le> 90 then char_of (n + 32) else c) s"

fun py_contains :: "string \<Rightarrow> string \<Rightarrow> bool" where
  "py_contains kw [] = (kw = [])"
| "py_contains kw (c # cs) = (take (length kw) (c # cs) = kw \<or> py_contains kw cs)"

definition is_ascii_letter :: "char \<Rightarrow> bool" where
  "is_ascii_letter c =
     (let n = (of_char c :: nat) in (65 \<le> n \<and> n \<le> 90) \<or> (97 \<le> n \<and> n \<le> 122))"

definition is_word_char :: "char \<Rightarrow> bool" where
  "is_word_char c =
     (let n = (of_char c :: nat) in is_ascii_letter c \<or> (48 \<le> n \<and> n \<le> 57) \<or> c = CHR ''_'')"

definition is_name_char :: "char \<Rightarrow> bool" where
  "is_name_char c = (is_word_char c \<or> c = CHR ''-'')"

text \<open>
  \<open>len(re.findall(p + r'[\w-]+', s))\<close> for a one-character prefix \<open>p\<close> (\<open>#\<close> or
  \<open>.\<close>): the scan takes the longest run of name characters after the prefix and goes on
  behind it.
\<close>

function count_prefixed :: "char \<Rightarrow> string \<Rightarrow> nat" where
  "count_prefixed p [] = 0"
| "count_prefixed p (c # cs) =
     (if c = p \<and> takeWhile is_name_char cs \<noteq> []
      then 1 + count_prefixed p (dropWhile is_name_char cs)
      else count_prefixed p cs)"
  by pat_completeness auto
termination
  by (relation "measure (\<lambda>(p, s). length s)")
     (auto simp: less_Suc_eq_le length_dropWhile_le)

text \<open>
  \<open>len(re.findall(r'\b[a-zA-Z]+\b', s))\<close>: a match is a maximal run of word characters
  that consists of letters only.
\<close>

function count_words :: "string \<Rightarrow> nat" where
  "count_words [] = 0"
| "count_words (c # cs) =
     (if is_word_char c
      then (if list_all is_ascii_letter (takeWhile is_word_char (c # cs)) then 1 else 0)
           + count_words (dropWhile is_word_char cs)
      else count_words cs)"
  by pat_completeness auto
termination
  by (relation "measure length")
     (auto simp: less_Suc_eq_le length_dropWhile_le)


section \<open>SelectorGenerator (app/core/ai/selector_generator.py)\<close>

definition job_related_keywords :: "string list" where
  "job_related_keywords =
     [''job'', ''position'', ''career'', ''work'', ''employment'', ''vacancy'',
      ''posting'', ''opening'', ''opportunity'', ''role'', ''listing'']"

definition company_keywords :: "string list" where
  "company_keywords =
     [''company'', ''employer'', ''organization'', ''corp'', ''inc'',
      ''firm'', ''enterprise'', ''business'']"

definition location_keywords :: "string list" where
  "location_keywords =
     [''location'', ''city'', ''address'', ''place'', ''region'',
      ''area'', ''district'', ''zone'']"

definition time_keywords :: "string list" where
  "time_keywords =
     [''time'', ''date'', ''published'', ''posted'', ''created'',
      ''updated'', ''ago'', ''recent'']"

definition calculate_specificity :: "string \<Rightarrow> nat" where
  "calculate_specificity sel =
     count_prefixed (CHR ''#'') sel + count_prefixed (CHR ''.'') sel + count_words sel"

definition is_semantically_relevant :: "string \<Rightarrow> string \<Rightarrow> bool" where
  "is_semantically_relevant sel selector_type =
     (let selector_lower = py_lower sel in
      if selector_type \<in> set [''jobList'', ''jobItem'', ''jobTitle'', ''jobDescription'']
      then list_ex (\<lambda>keyword. py_contains keyword selector_lower) job_related_keywords
      else if selector_type = ''companyName''
      then list_ex (\<lambda>keyword. py_contains keyword selector_lower) company_keywords
      else if selector_type = ''location''
      then list_ex (\<lambda>keyword. py_contains keyword selector_lower) location_keywords
      else if selector_type = ''publishedAt''
      then list_ex (\<lambda>keyword. py_contains keyword selector_lower) time_keywords
      else False)"

definition evaluate_selector_quality :: "string \<Rightarrow> string \<Rightarrow> tag list \<Rightarrow> soup \<Rightarrow> rat" where
  "evaluate_selector_quality selector_type sel elements doc =
     (let score0 = (if elements \<noteq> [] then 4 / 10 else 0);
          element_count = length elements;
          score1 =
            (if selector_type = ''jobList'' then
               (if 1 \<le> element_count \<and> element_count \<le> 2 then score0 + 3 / 10
                else if element_count \<le> 5 then score0 + 2 / 10 else score0)
             else if selector_type \<in> set [''jobItem''] then
               (if 5 \<le> element_count \<and> element_count \<le> 100 then score0 + 3 / 10
                else if 1 \<le> element_count \<and> element_count \<le> 200 then score0 + 2 / 10
                else score0)
             else if selector_type = ''nextPage'' then
               (if element_count = 1 then score0 + 3 / 10
                else if element_count \<le> 3 then score0 + 2 / 10 else score0)
             else
               (if element_count > 0 then score0 + 3 / 10 else score0));
          specificity = calculate_specificity sel;
          score2 =
            (if 2 \<le> specificity \<and> specificity \<le> 4 then score1 + 2 / 10
             else if specificity \<le> 6 then score1 + 1 / 10 else score1);
          score3 =
            (if is_semantically_relevant sel selector_type then score2 + 1 / 10 else score2)
      in min score3 1)"

text \<open>
  \<open>_improve_selector\<close>: the first move tries the last whitespace-separated part alone,
  the second prefixes the class of the first matched element's parent.  A trial
  \<open>soup.select\<close> that raises leaves the function by the exception.
\<close>

definition simplify_move :: "string \<Rightarrow> tag list \<Rightarrow> soup \<Rightarrow> py_error + string option" where
  "simplify_move original_selector elements doc =
     (if length (py_split original_selector) > 4 then
        (let parts = py_split original_selector;
             simplified = last parts
         in case select doc simplified of
              Inl e \<Rightarrow> Inl e
            | Inr test_elements \<Rightarrow>
                if test_elements \<noteq> [] \<and> length test_elements \<le> length elements * 2
                then Inr (Some simplified) else Inr None)
      else Inr None)"

definition narrow_move :: "string \<Rightarrow> tag list \<Rightarrow> soup \<Rightarrow> py_error + string option" where
  "narrow_move original_selector elements doc =
     (if length elements > 50 then
        (case elements of
           [] \<Rightarrow> Inl (PyException ''list index out of range'')
         | first_element # _ \<Rightarrow>
             (case tag_parent first_element of
                None \<Rightarrow> Inr None
              | Some parent \<Rightarrow>
                  (case tag_class parent of
                     None \<Rightarrow> Inr None
                   | Some classes \<Rightarrow>
                       if classes = [] then Inr None
                       else
                         (let parent_class = py_join ''.'' classes;
                              improved = ''.'' @ parent_class @ '' '' @ original_selector
                          in case select doc improved of
                               Inl e \<Rightarrow> Inl e
                             | Inr test_elements \<Rightarrow>
                                 if test_elements \<noteq> [] \<and> length test_elements < length elements
                                 then Inr (Some improved) else Inr None))))
      else Inr None)"

definition improve_selector :: "string \<Rightarrow> tag list \<Rightarrow> soup \<Rightarrow> py_error + string option" where
  "improve_selector original_selector elements doc =
     (case simplify_move original_selector elements doc of
        Inl e \<Rightarrow> Inl e
      | Inr (Some simplified) \<Rightarrow> Inr (Some simplified)
      | Inr None \<Rightarrow> narrow_move original_selector elements doc)"

fun best_candidate_loop ::
  "soup \<Rightarrow> string list \<Rightarrow> string option \<times> rat \<Rightarrow> string option \<times> rat"
where
  "best_candidate_loop doc [] acc = acc"
| "best_candidate_loop doc (candidate # rest) (best_candidate, best_score) =
     (case select doc candidate of
        Inl e \<Rightarrow> best_candidate_loop doc rest (best_candidate, best_score)
      | Inr elements \<Rightarrow>
          if elements \<noteq> [] then
            (let element_count = length elements;
                 specificity = calculate_specificity candidate;
                 score = (if 1 \<le> element_count \<and> element_count \<le> 50 then 5 / 10 else 0)
                       + (if 1 \<le> specificity \<and> specificity \<le> 4 then 3 / 10 else 0)
                       + (if element_count > 0 then 2 / 10 else 0)
             in if score > best_score
                then best_candidate_loop doc rest (Some candidate, score)
                else best_candidate_loop doc rest (best_candidate, best_score))
          else best_candidate_loop doc rest (best_candidate, best_score))"

definition select_best_candidate :: "string list \<Rightarrow> soup \<Rightarrow> string option" where
  "select_best_candidate candidates doc =
     (if candidates = [] then None else fst (best_candidate_loop doc candidates (None, 0)))"

text \<open>
  \<open>_optimize_selector\<close>.  \<open>optimize_body\<close> is the body of its \<open>try\<close>; the handler
  logs the exception and returns the AI selector unchanged.
\<close>

definition optimize_body ::
  "string \<Rightarrow> string \<Rightarrow> soup \<Rightarrow> (string \<rightharpoonup> string list) \<Rightarrow> py_error + string option"
where
  "optimize_body selector_type ai_selector doc detected_elements =
     (case select doc ai_selector of
        Inl e \<Rightarrow> Inl e
      | Inr elements \<Rightarrow>
          if elements \<noteq> [] then
            (let quality_score = evaluate_selector_quality selector_type ai_selector elements doc
             in if quality_score \<ge> 7 / 10 then Inr (Some ai_selector)
                else
                  (case improve_selector ai_selector elements doc of
                     Inl e \<Rightarrow> Inl e
                   | Inr optimized \<Rightarrow>
                       (case optimized of
                          None \<Rightarrow> Inr (Some ai_selector)
                        | Some s \<Rightarrow> if s \<noteq> [] then Inr (Some s) else Inr (Some ai_selector))))
          else
            (let candidates =
                   (case detected_elements (selector_type @ ''_elements'') of
                      None \<Rightarrow> [] | Some cs \<Rightarrow> cs)
             in Inr (select_best_candidate candidates doc)))"

definition optimize_selector ::
  "string \<Rightarrow> string \<Rightarrow> soup \<Rightarrow> (string \<rightharpoonup> string list) \<Rightarrow> string option"
where
  "optimize_selector selector_type ai_selector doc detected_elements =
     (if ai_selector = [] then None
      else case optimize_body selector_type ai_selector doc detected_elements of
             Inl e \<Rightarrow> Some ai_selector
           | Inr r \<Rightarrow> r)"

definition fallback_patterns :: "string \<Rightarrow> string list" where
  \<open>fallback_patterns selector_type =
     (if selector_type = ''jobList'' then
        [''.jobs-list'', ''.job-list'', ''.positions'', ''.careers'',
         ''.search-results'', ''.listings'', ''[class*="job"]'',
         ''ul[class*="job"]'', ''div[class*="list"]'']
      else if selector_type = ''jobItem'' then
        [''.job-item'', ''.job-card'', ''.position'', ''.listing'',
         ''.job-posting'', ''[class*="job-item"]'', ''li[class*="job"]'',
         ''div[class*="item"]'', ''.result-item'']
      else if selector_type = ''jobTitle'' then
        [''.job-title'', ''.position-title'', ''.title'', ''h1'', ''h2'', ''h3'',
         ''a[class*="title"]'', ''[class*="job-title"]'', ''.name'']
      else if selector_type = ''jobLink'' then
        [''a[href*="/job/"]'', ''a[href*="/position/"]'', ''a[href*="/career/"]'',
         ''.job-link'', ''.title-link'', ''a.title'', ''h3 a'', ''h2 a'']
      else if selector_type = ''companyName'' then
        [''.company'', ''.employer'', ''.company-name'', ''.organization'',
         ''[class*="company"]'', ''[class*="employer"]'', ''.firm'']
      else if selector_type = ''publishedAt'' then
        [''.date'', ''.time'', ''.published'', ''.posted'', ''.created'',
         ''[class*="date"]'', ''[class*="time"]'', ''.ago'']
      else if selector_type = ''location'' then
        [''.location'', ''.city'', ''.address'', ''.place'',
         ''[class*="location"]'', ''[class*="city"]'', ''.region'']
      else if selector_type = ''jobDescription'' then
        [''.description'', ''.summary'', ''.content'', ''.details'',
         ''[class*="description"]'', ''[class*="summary"]'', ''p'']
      else if selector_type = ''nextPage'' then
        [''.next'', ''.next-page'', ''[aria-label*="next"]'',
         ''[aria-label*="'' @
           [CHR 0xE4, CHR 0xB8, CHR 0x8B, CHR 0xE4, CHR 0xB8, CHR 0x80, CHR 0xE9, CHR 0xA1, CHR 0xB5]
           @ ''"]'',
         ''a[href*="page="]'', ''.pagination .next'', ''button[class*="next"]'']
      else [])\<close>

fun first_matching_pattern :: "soup \<Rightarrow> string list \<Rightarrow> string option" where
  "first_matching_pattern doc [] = None"
| "first_matching_pattern doc (pattern # rest) =
     (case select doc pattern of
        Inl e \<Rightarrow> first_matching_pattern doc rest
      | Inr elements \<Rightarrow>
          if elements \<noteq> [] then Some pattern else first_matching_pattern doc rest)"

definition generate_fallback_selector :: "string \<Rightarrow> soup \<Rightarrow> string option" where
  "generate_fallback_selector selector_type doc =
     first_matching_pattern doc (fallback_patterns selector_type)"

definition selector_types :: "string list" where
  "selector_types =
     [''jobList'', ''jobItem'', ''jobTitle'', ''jobLink'', ''companyName'',
      ''publishedAt'', ''location'', ''jobDescription'', ''nextPage'']"

record ai_analysis_response =
  confidence_score :: rat
  detected_elements :: "string \<rightharpoonup> string list"
  recommended_selectors :: "string \<rightharpoonup> string"
  analysis_notes :: string
  processing_time_ms :: int

fun heuristic_loop :: "soup \<Rightarrow> string list \<Rightarrow> string py_dict \<Rightarrow> string py_dict" where
  "heuristic_loop doc [] selectors = selectors"
| "heuristic_loop doc (selector_type # rest) selectors =
     (case generate_fallback_selector selector_type doc of
        None \<Rightarrow> heuristic_loop doc rest selectors
      | Some fallback \<Rightarrow>
          if fallback \<noteq> [] then heuristic_loop doc rest (AList.update selector_type fallback selectors)
          else heuristic_loop doc rest selectors)"

definition generate_heuristic_selectors ::
  "(string \<Rightarrow> py_error + soup) \<Rightarrow> string \<Rightarrow> py_error + string py_dict"
where
  "generate_heuristic_selectors parse_html html_content =
     (case parse_html html_content of
        Inl e \<Rightarrow> Inl e
      | Inr doc \<Rightarrow> Inr (heuristic_loop doc selector_types []))"

text \<open>
  The body of the \<open>else\<close> branch in \<open>generate_selectors\<close>: the fallback pattern is
  stored only when one is found.
\<close>

definition store_fallback :: "string \<Rightarrow> soup \<Rightarrow> string py_dict \<Rightarrow> string py_dict" where
  "store_fallback key doc selectors =
     (case generate_fallback_selector key doc of
        None \<Rightarrow> selectors
      | Some fallback_selector \<Rightarrow>
          if fallback_selector \<noteq> [] then AList.update key fallback_selector selectors
          else selectors)"

fun generate_loop ::
  "soup \<Rightarrow> ai_analysis_response \<Rightarrow> string list \<Rightarrow> string py_dict \<Rightarrow> string py_dict"
where
  "generate_loop doc ai_analysis [] selectors = selectors"
| "generate_loop doc ai_analysis (key # rest) selectors =
     (let ai_selector = (case recommended_selectors ai_analysis key of None \<Rightarrow> [] | Some s \<Rightarrow> s);
          optimized_selector =
            optimize_selector key ai_selector doc (detected_elements ai_analysis)
      in case optimized_selector of
           None \<Rightarrow> generate_loop doc ai_analysis rest (store_fallback key doc selectors)
         | Some s \<Rightarrow>
             if s \<noteq> [] then generate_loop doc ai_analysis rest (AList.update key s selectors)
             else generate_loop doc ai_analysis rest (store_fallback key doc selectors))"

definition generate_selectors ::
  "(string \<Rightarrow> py_error + soup) \<Rightarrow> ai_analysis_response \<Rightarrow> string \<Rightarrow> py_error + string py_dict"
where
  "generate_selectors parse_html ai_analysis html_content =
     (case parse_html html_content of
        Inl e \<Rightarrow> generate_heuristic_selectors parse_html html_content
      | Inr doc \<Rightarrow> Inr (generate_loop doc ai_analysis selector_types []))"

section \<open>Pages and element handles (the browser capability used by the crawler)\<close>

text \<open>
  An element handle is what the code can ask of it: sub-queries, attributes, its text, its
  markup, and a click that waits for navigation and gives the address the page then has.
  Every such call may raise.
\<close>

datatype element = Element
  (query_selector: "string \<Rightarrow> py_error + element option")
  (query_selector_all: "string \<Rightarrow> py_error + element list")
  (get_attribute: "string \<Rightarrow> py_error + string option")
  (inner_text: "py_error + string")
  (inner_html: "py_error + string")
  (click_and_navigate: "py_error + string")

datatype stealth_op =
  SetExtraHttpHeaders | SetViewportSize | AddInitScript | EmulateTimezone | SetGeolocation

text \<open>
  A page as the browser hands it out: how it will answer once navigated (\<open>page_url\<close>,
  \<open>page_content\<close>, \<open>page_query_selector_all\<close>), which calls on it raise
  (\<open>goto_error\<close>, \<open>stealth_error\<close>), and the identity settings written to it so far.
\<close>

record page =
  page_url :: string
  page_content :: "py_error + string"
  page_query_selector_all :: "string \<Rightarrow> py_error + element list"
  goto_error :: "string \<Rightarrow> py_error option"
  stealth_error :: "stealth_op \<Rightarrow> py_error option"
  extra_http_headers :: "string py_dict option"
  viewport_size :: "(nat \<times> nat) option"
  init_scripts :: nat
  timezone :: "string option"
  geolocation :: "(rat \<times> rat) option"

section \<open>CrawlerAgent (app/core/browser/crawler_agent.py)\<close>

text \<open>
  \<open>urljoin\<close> from \<open>urllib.parse\<close> is a parameter of the model.  \<open>str.strip()\<close>
  removes whitespace at both ends; \<open>d.get(k, default)\<close> is \<open>py_get\<close>.
\<close>

definition py_strip :: "string \<Rightarrow> string" where
  "py_strip s = rev (dropWhile is_space (rev (dropWhile is_space s)))"

definition py_get :: "'v py_dict \<Rightarrow> string \<Rightarrow> 'v \<Rightarrow> 'v" where
  "py_get d k dflt = (case map_of d k of None \<Rightarrow> dflt | Some v \<Rightarrow> v)"

definition py_startswith :: "string \<Rightarrow> string \<Rightarrow> bool" where
  "py_startswith s pre = (take (length pre) s = pre)"

definition normalize_url ::
  "(string \<Rightarrow> string \<Rightarrow> py_error + string) \<Rightarrow> string \<Rightarrow> string \<Rightarrow> string"
where
  "normalize_url urljoin url base_url =
     (if url = [] then []
      else if py_startswith url ''http://'' \<or> py_startswith url ''https://'' then url
      else case urljoin base_url url of Inl e \<Rightarrow> url | Inr joined \<Rightarrow> joined)"

definition extract_field_body :: "element \<Rightarrow> string \<Rightarrow> string \<Rightarrow> py_error + string" where
  "extract_field_body job_element sel field_type =
     (case query_selector job_element sel of
        Inl e \<Rightarrow> Inl e
      | Inr None \<Rightarrow> Inr []
      | Inr (Some el) \<Rightarrow>
          if field_type = ''link'' then
            (case get_attribute el ''href'' of
               Inl e \<Rightarrow> Inl e
             | Inr href \<Rightarrow> Inr (case href of None \<Rightarrow> [] | Some h \<Rightarrow> h))
          else
            (case inner_text el of
               Inl e \<Rightarrow> Inl e
             | Inr text \<Rightarrow> Inr (if text \<noteq> [] then py_strip text else [])))"

definition extract_field_value :: "element \<Rightarrow> string \<Rightarrow> string \<Rightarrow> page \<Rightarrow> string" where
  "extract_field_value job_element sel field_type pg =
     (case extract_field_body job_element sel field_type of Inl e \<Rightarrow> [] | Inr v \<Rightarrow> v)"

definition field_mapping :: "(string \<times> string) list" where
  "field_mapping =
     [(''title'', ''jobTitle''), (''company'', ''companyName''), (''location'', ''location''),
      (''published_at'', ''publishedAt''), (''description'', ''jobDescription''),
      (''link'', ''jobLink'')]"

fun extract_fields ::
  "element \<Rightarrow> string py_dict \<Rightarrow> page \<Rightarrow> (string \<times> string) list \<Rightarrow> string py_dict \<Rightarrow> string py_dict"
where
  "extract_fields job_element selectors pg [] job_data = job_data"
| "extract_fields job_element selectors pg ((field, selector_key) # rest) job_data =
     (let sel = py_get selectors selector_key []
      in if sel \<noteq> []
         then extract_fields job_element selectors pg rest
                (AList.update field (extract_field_value job_element sel field pg) job_data)
         else extract_fields job_element selectors pg rest job_data)"

text \<open>\<open>not d.get(k)\<close> for a dictionary of strings: the key is absent or its value is empty.\<close>

definition field_empty :: "string py_dict \<Rightarrow> string \<Rightarrow> bool" where
  "field_empty job_data k = (case map_of job_data k of None \<Rightarrow> True | Some v \<Rightarrow> v = [])"

definition extract_single_job ::
  "(string \<Rightarrow> string \<Rightarrow> py_error + string) \<Rightarrow> element \<Rightarrow> string py_dict \<Rightarrow> page \<Rightarrow>
     string py_dict option"
where
  "extract_single_job urljoin job_element selectors pg =
     (let job_data = extract_fields job_element selectors pg field_mapping []
      in if field_empty job_data ''title'' \<and> field_empty job_data ''company'' then None
         else
           (let job_data1 =
                  (if \<not> field_empty job_data ''link''
                   then AList.update ''link''
                          (normalize_url urljoin (py_get job_data ''link'' []) (page_url pg)) job_data
                   else job_data)
            in case inner_html job_element of
                 Inl e \<Rightarrow> None
               | Inr html \<Rightarrow> Some (AList.update ''raw_html'' html job_data1)))"

datatype extraction_error =
    MissingJobListSelector
  | JobListNotFound string
  | MissingJobItemSelector
  | ExtractionException py_error

record extraction_result =
  extraction_success :: bool
  extraction_error :: "extraction_error option"
  extraction_jobs :: "string py_dict list"

text \<open>The inner loop \<open>for job_item in job_items\<close>, appending to \<open>jobs\<close>.\<close>

fun extract_items ::
  "(string \<Rightarrow> string \<Rightarrow> py_error + string) \<Rightarrow> element list \<Rightarrow> string py_dict \<Rightarrow> page \<Rightarrow>
     string py_dict list \<Rightarrow> string py_dict list"
where
  "extract_items urljoin [] selectors pg jobs = jobs"
| "extract_items urljoin (job_item # rest) selectors pg jobs =
     (case extract_single_job urljoin job_item selectors pg of
        None \<Rightarrow> extract_items urljoin rest selectors pg jobs
      | Some job_data \<Rightarrow>
          if job_data \<noteq> [] then extract_items urljoin rest selectors pg (jobs @ [job_data])
          else extract_items urljoin rest selectors pg jobs)"

text \<open>The outer loop \<open>for job_list in job_list_elements\<close>; a raising sub-query ends it.\<close>

fun extract_lists ::
  "(string \<Rightarrow> string \<Rightarrow> py_error + string) \<Rightarrow> element list \<Rightarrow> string \<Rightarrow> string py_dict \<Rightarrow> page \<Rightarrow>
     string py_dict list \<Rightarrow> py_error + string py_dict list"
where
  "extract_lists urljoin [] job_item_selector selectors pg jobs = Inr jobs"
| "extract_lists urljoin (job_list # rest) job_item_selector selectors pg jobs =
     (case query_selector_all job_list job_item_selector of
        Inl e \<Rightarrow> Inl e
      | Inr job_items \<Rightarrow>
          extract_lists urljoin rest job_item_selector selectors pg
            (extract_items urljoin job_items selectors pg jobs))"

definition extraction_failure :: "extraction_error \<Rightarrow> extraction_result" where
  "extraction_failure err =
     \<lparr>extraction_success = False, extraction_error = Some err, extraction_jobs = []\<rparr>"

definition extract_jobs ::
  "(string \<Rightarrow> string \<Rightarrow> py_error + string) \<Rightarrow> page \<Rightarrow> string py_dict \<Rightarrow> extraction_result"
where
  "extract_jobs urljoin pg selectors =
     (let job_list_selector = py_get selectors ''jobList'' []
      in if job_list_selector = [] then extraction_failure MissingJobListSelector
         else case page_query_selector_all pg job_list_selector of
                Inl e \<Rightarrow> extraction_failure (ExtractionException e)
              | Inr job_list_elements \<Rightarrow>
                  if job_list_elements = []
                  then extraction_failure (JobListNotFound job_list_selector)
                  else
                    (let job_item_selector = py_get selectors ''jobItem'' []
                     in if job_item_selector = [] then extraction_failure MissingJobItemSelector
                        else case extract_lists urljoin job_list_elements job_item_selector
                                    selectors pg [] of
                               Inl e \<Rightarrow> extraction_failure (ExtractionException e)
                             | Inr jobs \<Rightarrow>
                                 \<lparr>extraction_success = True, extraction_error = None,
                                  extraction_jobs = jobs\<rparr>))"

datatype next_page_error =
    MissingNextPageSelector
  | NextPageNotFound
  | NextPageDisabled
  | ClickFailed py_error
  | NextPageException py_error

record next_page_result =
  has_next :: bool
  next_url :: "string option"
  next_error :: "next_page_error option"

definition no_next :: "next_page_error \<Rightarrow> next_page_result" where
  "no_next err = \<lparr>has_next = False, next_url = None, next_error = Some err\<rparr>"

definition next_page_fallback_selectors :: "string list" where
  \<open>next_page_fallback_selectors =
     [''a[aria-label*="next"]'',
      ''a[aria-label*="'' @
        [CHR 0xE4, CHR 0xB8, CHR 0x8B, CHR 0xE4, CHR 0xB8, CHR 0x80, CHR 0xE9, CHR 0xA1, CHR 0xB5]
        @ ''"]'',
      ''.next:not(.disabled)'',
      ''[data-page="next"]'',
      ''a:has-text("Next")'',
      ''a:has-text("'' @
        [CHR 0xE4, CHR 0xB8, CHR 0x8B, CHR 0xE4, CHR 0xB8, CHR 0x80, CHR 0xE9, CHR 0xA1, CHR 0xB5]
        @ ''")'',
      ''a:has-text(">")'']\<close>

text \<open>The loop over the fallback selectors: the first non-empty answer wins.\<close>

fun try_next_fallbacks :: "page \<Rightarrow> string list \<Rightarrow> py_error + element list" where
  "try_next_fallbacks pg [] = Inr []"
| "try_next_fallbacks pg (fallback # rest) =
     (case page_query_selector_all pg fallback of
        Inl e \<Rightarrow> Inl e
      | Inr next_elements \<Rightarrow>
          if next_elements \<noteq> [] then Inr next_elements
          else try_next_fallbacks pg rest)"

text \<open>The loop choosing the first element that is not disabled.\<close>

fun first_enabled :: "element list \<Rightarrow> py_error + element option" where
  "first_enabled [] = Inr None"
| "first_enabled (el # rest) =
     (case get_attribute el ''disabled'' of
        Inl e \<Rightarrow> Inl e
      | Inr is_disabled \<Rightarrow>
          (case get_attribute el ''class'' of
             Inl e \<Rightarrow> Inl e
           | Inr cls \<Rightarrow>
               (let class_attr = (case cls of None \<Rightarrow> [] | Some c \<Rightarrow> c)
                in if (is_disabled = None \<or> is_disabled = Some [])
                      \<and> \<not> py_contains ''disabled'' (py_lower class_attr)
                   then Inr (Some el)
                   else first_enabled rest)))"

definition find_next_page_body ::
  "(string \<Rightarrow> string \<Rightarrow> py_error + string) \<Rightarrow> page \<Rightarrow> string \<Rightarrow> py_error + next_page_result"
where
  "find_next_page_body urljoin pg next_page_selector =
     (if next_page_selector = [] then Inr (no_next MissingNextPageSelector)
      else case page_query_selector_all pg next_page_selector of
             Inl e \<Rightarrow> Inl e
           | Inr found \<Rightarrow>
               (case (if found = [] then try_next_fallbacks pg next_page_fallback_selectors
                      else Inr found) of
                  Inl e \<Rightarrow> Inl e
                | Inr next_elements \<Rightarrow>
                    if next_elements = [] then Inr (no_next NextPageNotFound)
                    else case first_enabled next_elements of
                           Inl e \<Rightarrow> Inl e
                         | Inr None \<Rightarrow> Inr (no_next NextPageDisabled)
                         | Inr (Some next_element) \<Rightarrow>
                             (case get_attribute next_element ''href'' of
                                Inl e \<Rightarrow> Inl e
                              | Inr href \<Rightarrow>
                                  if href \<noteq> None \<and> href \<noteq> Some [] then
                                    Inr \<lparr>has_next = True,
                                         next_url = Some (normalize_url urljoin
                                                      (case href of None \<Rightarrow> [] | Some h \<Rightarrow> h)
                                                      (page_url pg)),
                                         next_error = None\<rparr>
                                  else
                                    (case click_and_navigate next_element of
                                       Inl e \<Rightarrow> Inr (no_next (ClickFailed e))
                                     | Inr new_url \<Rightarrow>
                                         Inr \<lparr>has_next = True, next_url = Some new_url,
                                              next_error = None\<rparr>))))"

definition find_next_page ::
  "(string \<Rightarrow> string \<Rightarrow> py_error + string) \<Rightarrow> page \<Rightarrow> string \<Rightarrow> next_page_result"
where
  "find_next_page urljoin pg next_page_selector =
     (case find_next_page_body urljoin pg next_page_selector of
        Inl e \<Rightarrow> no_next (NextPageException e)
      | Inr r \<Rightarrow> r)"


section \<open>AntiDetectionManager (app/core/browser/anti_detection.py)\<close>

text \<open>
  Python's global random generator is an oracle of the environment: \<open>random.choice(xs)\<close>
  with raw draw \<open>r\<close> returns \<open>xs[r mod len(xs)]\<close> and raises on an empty list.
\<close>

definition random_choice :: "'a list \<Rightarrow> nat \<Rightarrow> py_error + 'a" where
  "random_choice xs r =
     (if xs = [] then Inl (PyException ''Cannot choose from an empty sequence'')
      else Inr (xs ! (r mod length xs)))"

record behavior_pattern =
  scroll_delay :: "rat \<times> rat"
  click_delay :: "rat \<times> rat"
  type_delay :: "rat \<times> rat"

record anti_detection_manager =
  user_agents :: "string list"
  viewport_sizes :: "(nat \<times> nat) list"
  behavior_patterns :: "behavior_pattern list"
  current_behavior :: behavior_pattern

definition default_user_agents :: "string list" where
  "default_user_agents =
     [''Mozilla/5.0 (Windows NT 10.0; Win64; x64) AppleWebKit/537.36 (KHTML, like Gecko) Chrome/120.0.0.0 Safari/537.36'',
      ''Mozilla/5.0 (Macintosh; Intel Mac OS X 10_15_7) AppleWebKit/537.36 (KHTML, like Gecko) Chrome/120.0.0.0 Safari/537.36'',
      ''Mozilla/5.0 (X11; Linux x86_64) AppleWebKit/537.36 (KHTML, like Gecko) Chrome/120.0.0.0 Safari/537.36'',
      ''Mozilla/5.0 (Windows NT 10.0; Win64; x64; rv:121.0) Gecko/20100101 Firefox/121.0'',
      ''Mozilla/5.0 (Macintosh; Intel Mac OS X 10.15; rv:121.0) Gecko/20100101 Firefox/121.0'']"

definition default_viewport_sizes :: "(nat \<times> nat) list" where
  "default_viewport_sizes = [(1920, 1080), (1366, 768), (1536, 864), (1440, 900), (1600, 900)]"

definition default_behavior_patterns :: "behavior_pattern list" where
  "default_behavior_patterns =
     [\<lparr>scroll_delay = (1, 3), click_delay = (1 / 2, 3 / 2), type_delay = (1 / 10, 3 / 10)\<rparr>,
      \<lparr>scroll_delay = (2, 4), click_delay = (1, 2), type_delay = (2 / 10, 4 / 10)\<rparr>,
      \<lparr>scroll_delay = (3 / 2, 5 / 2), click_delay = (8 / 10, 18 / 10),
       type_delay = (15 / 100, 35 / 100)\<rparr>]"

text \<open>
  \<open>__init__\<close>: the behaviour pattern is drawn here, with the raw draw \<open>r\<close>.  The only
  other writer of \<open>current_behavior\<close> is \<open>update_behavior_pattern\<close>, which nothing in
  the repository calls.
\<close>

definition new_anti_detection_manager :: "nat \<Rightarrow> py_error + anti_detection_manager" where
  "new_anti_detection_manager r =
     (case random_choice default_behavior_patterns r of
        Inl e \<Rightarrow> Inl e
      | Inr behavior \<Rightarrow>
          Inr \<lparr>user_agents = default_user_agents, viewport_sizes = default_viewport_sizes,
               behavior_patterns = default_behavior_patterns, current_behavior = behavior\<rparr>)"

definition update_behavior_pattern :: "nat \<Rightarrow> anti_detection_manager \<Rightarrow> py_error + anti_detection_manager" where
  "update_behavior_pattern r mgr =
     (case random_choice (behavior_patterns mgr) r of
        Inl e \<Rightarrow> Inl e
      | Inr behavior \<Rightarrow> Inr (mgr\<lparr>current_behavior := behavior\<rparr>))"

section \<open>The environment of a crawl\<close>

datatype choice_site = UserAgentChoice | ViewportChoice | TimezoneChoice | LocationChoice

record settings =
  user_agent_rotation :: bool
  human_behavior_simulation :: bool
  request_delay_min :: int
  request_delay_max :: int

text \<open>
  \<open>env_random_draw k c\<close> is the raw draw of \<open>random.choice\<close> at call site \<open>c\<close> during
  the \<open>k\<close>-th page load; \<open>env_sleep_error n\<close> is the exception, if any, raised by the
  delay after \<open>n\<close> pages; \<open>env_agent_error\<close> and \<open>env_result_error\<close> are exceptions
  raised in the outer \<open>try\<close> of \<open>crawl_jobs\<close> before and after the page loop.
\<close>

record environment =
  env_settings :: settings
  env_random_draw :: "nat \<Rightarrow> choice_site \<Rightarrow> nat"
  env_urljoin :: "string \<Rightarrow> string \<Rightarrow> py_error + string"
  env_sleep_error :: "int \<Rightarrow> py_error option"
  env_agent_error :: "py_error option"
  env_result_error :: "py_error option"

section \<open>apply_stealth_measures\<close>

text \<open>
  The body of a \<open>try\<close> whose handler only logs: the steps run in order until one raises,
  and what the earlier steps wrote stays written.
\<close>

fun run_until_error :: "('s \<Rightarrow> py_error + 's) list \<Rightarrow> 's \<Rightarrow> 's" where
  "run_until_error [] s = s"
| "run_until_error (step # rest) s =
     (case step s of Inl e \<Rightarrow> s | Inr s' \<Rightarrow> run_until_error rest s')"

definition page_call :: "stealth_op \<Rightarrow> (page \<Rightarrow> page) \<Rightarrow> page \<Rightarrow> py_error + page" where
  "page_call op write pg =
     (case stealth_error pg op of Some e \<Rightarrow> Inl e | None \<Rightarrow> Inr (write pg))"

definition stealth_headers :: "string \<Rightarrow> string py_dict" where
  "stealth_headers user_agent =
     [(''User-Agent'', user_agent),
      (''Accept'', ''text/html,application/xhtml+xml,application/xml;q=0.9,image/webp,*/*;q=0.8''),
      (''Accept-Language'', ''zh-CN,zh;q=0.9,en;q=0.8''),
      (''Accept-Encoding'', ''gzip, deflate, br''),
      (''DNT'', ''1''),
      (''Connection'', ''keep-alive''),
      (''Upgrade-Insecure-Requests'', ''1'')]"

definition stealth_timezones :: "string list" where
  "stealth_timezones = [''Asia/Shanghai'', ''Asia/Beijing'', ''Asia/Hong_Kong'']"

definition stealth_locations :: "(rat \<times> rat) list" where
  "stealth_locations =
     [(399042 / 10000, 1164074 / 10000), (312304 / 10000, 1214737 / 10000),
      (223193 / 10000, 1141694 / 10000)]"

definition user_agent_step ::
  "environment \<Rightarrow> nat \<Rightarrow> anti_detection_manager \<Rightarrow> page \<Rightarrow> py_error + page"
where
  "user_agent_step env k mgr pg =
     (if user_agent_rotation (env_settings env) then
        (case random_choice (user_agents mgr) (env_random_draw env k UserAgentChoice) of
           Inl e \<Rightarrow> Inl e
         | Inr user_agent \<Rightarrow>
             page_call SetExtraHttpHeaders
               (\<lambda>p. p\<lparr>extra_http_headers := Some (stealth_headers user_agent)\<rparr>) pg)
      else Inr pg)"

definition viewport_step ::
  "environment \<Rightarrow> nat \<Rightarrow> anti_detection_manager \<Rightarrow> page \<Rightarrow> py_error + page"
where
  "viewport_step env k mgr pg =
     (case random_choice (viewport_sizes mgr) (env_random_draw env k ViewportChoice) of
        Inl e \<Rightarrow> Inl e
      | Inr viewport \<Rightarrow> page_call SetViewportSize (\<lambda>p. p\<lparr>viewport_size := Some viewport\<rparr>) pg)"

definition init_script_step :: "page \<Rightarrow> py_error + page" where
  "init_script_step pg = page_call AddInitScript (\<lambda>p. p\<lparr>init_scripts := init_scripts p + 1\<rparr>) pg"

definition timezone_step :: "environment \<Rightarrow> nat \<Rightarrow> page \<Rightarrow> py_error + page" where
  "timezone_step env k pg =
     (case random_choice stealth_timezones (env_random_draw env k TimezoneChoice) of
        Inl e \<Rightarrow> Inl e
      | Inr tz \<Rightarrow> page_call EmulateTimezone (\<lambda>p. p\<lparr>timezone := Some tz\<rparr>) pg)"

definition geolocation_step :: "environment \<Rightarrow> nat \<Rightarrow> page \<Rightarrow> py_error + page" where
  "geolocation_step env k pg =
     (case random_choice stealth_locations (env_random_draw env k LocationChoice) of
        Inl e \<Rightarrow> Inl e
      | Inr loc \<Rightarrow> page_call SetGeolocation (\<lambda>p. p\<lparr>geolocation := Some loc\<rparr>) pg)"

definition apply_stealth_measures ::
  "environment \<Rightarrow> nat \<Rightarrow> anti_detection_manager \<Rightarrow> page \<Rightarrow> page"
where
  "apply_stealth_measures env k mgr pg =
     run_until_error
       [user_agent_step env k mgr, viewport_step env k mgr, init_script_step,
        timezone_step env k, geolocation_step env k] pg"

section \<open>BrowserController (app/core/browser/browser_controller.py)\<close>

text \<open>
  The browser answers the \<open>k\<close>-th call of \<open>new_page\<close> with a page or an exception and
  counts the calls.
\<close>

record browser =
  new_page :: "nat \<Rightarrow> py_error + page"
  pages_opened :: nat

record browser_controller =
  browser :: "browser option"
  anti_detection :: anti_detection_manager
  current_page :: "page option"
  session_id :: "string option"

record page_load_result =
  load_success :: bool
  html_content :: string
  screenshot_path :: "string option"
  load_url :: string
  error_message :: "py_error option"

definition load_failure :: "string \<Rightarrow> py_error \<Rightarrow> page_load_result" where
  "load_failure url e =
     \<lparr>load_success = False, html_content = [], screenshot_path = None, load_url = url,
      error_message = Some e\<rparr>"

text \<open>
  \<open>load_page\<close> as \<open>crawl_jobs\<close> calls it (no screenshot).  The waits and the simulated
  scrolling catch their own exceptions and write nothing the model records.
\<close>

definition load_page ::
  "environment \<Rightarrow> browser_controller \<Rightarrow> string \<Rightarrow> page_load_result \<times> browser_controller"
where
  "load_page env ctrl url =
     (case browser ctrl of
        None \<Rightarrow> (load_failure url (PyException ''browser not initialised''), ctrl)
      | Some b \<Rightarrow>
          (let ctrl0 = ctrl\<lparr>browser := Some (b\<lparr>pages_opened := pages_opened b + 1\<rparr>)\<rparr>
           in case new_page b (pages_opened b) of
                Inl e \<Rightarrow> (load_failure url e, ctrl0)
              | Inr fresh \<Rightarrow>
                  (let pg = apply_stealth_measures env (pages_opened b) (anti_detection ctrl) fresh;
                       ctrl1 = ctrl0\<lparr>current_page := Some pg\<rparr>
                   in case goto_error pg url of
                        Some e \<Rightarrow> (load_failure url e, ctrl1)
                      | None \<Rightarrow>
                          (case page_content pg of
                             Inl e \<Rightarrow> (load_failure url e, ctrl1)
                           | Inr html \<Rightarrow>
                               (\<lparr>load_success = True, html_content = html,
                                 screenshot_path = None, load_url = url,
                                 error_message = None\<rparr>, ctrl1)))))"

datatype crawl_error =
    PageLoadFailure int "py_error option"
  | ExtractionFailure int "extraction_error option"
  | PageException int py_error
  | CrawlException py_error

record crawl_result =
  success :: bool
  jobs :: "string py_dict list"
  pages_crawled :: int
  total_pages :: "int option"
  errors :: "crawl_error list"
  next_page_url :: "string option"
  has_next_page :: bool

text \<open>
  The local variables of \<open>crawl_jobs\<close>: \<open>all_jobs\<close>, \<open>pages_crawled\<close> (here \<open>crawled\<close>),
  \<open>errors\<close> (here \<open>errs\<close>) and \<open>current_url\<close>; the short names keep them apart
  from the fields of the result.
\<close>

record crawl_state =
  all_jobs :: "string py_dict list"
  crawled :: int
  errs :: "crawl_error list"
  current_url :: "string option"

text \<open>
  One pass through the body of the \<open>while\<close> loop for the address \<open>url\<close>.  The result
  says whether the loop goes on (\<open>True\<close>) or was left by \<open>break\<close> (\<open>False\<close>).  The
  only call in the body that is not wrapped in a handler of its own is the delay before
  the next page; when it raises, the inner handler records the exception and breaks.
  (A successful load always sets \<open>current_page\<close>; the branch for \<open>None\<close> is what a
  failing extraction would give.)
\<close>

definition crawl_iteration ::
  "environment \<Rightarrow> string py_dict \<Rightarrow> browser_controller \<Rightarrow> crawl_state \<Rightarrow> string \<Rightarrow>
     bool \<times> browser_controller \<times> crawl_state"
where
  "crawl_iteration env selectors ctrl st url =
     (let (page_result, ctrl1) = load_page env ctrl url
      in if \<not> load_success page_result then
           (False, ctrl1,
            st\<lparr>errs := errs st @ [PageLoadFailure (crawled st + 1) (error_message page_result)]\<rparr>)
         else
           (case current_page ctrl1 of
              None \<Rightarrow>
                (False, ctrl1,
                 st\<lparr>errs := errs st @
                    [ExtractionFailure (crawled st + 1)
                       (Some (ExtractionException (PyException ''no current page'')))]\<rparr>)
            | Some pg \<Rightarrow>
                (let extraction = extract_jobs (env_urljoin env) pg selectors
                 in if extraction_success extraction then
                      (let st1 = st\<lparr>all_jobs := all_jobs st @ extraction_jobs extraction,
                                     crawled := crawled st + 1\<rparr>;
                           next_page = find_next_page (env_urljoin env) pg
                                         (py_get selectors ''nextPage'' [])
                       in if has_next next_page then
                            (let st2 = st1\<lparr>current_url := next_url next_page\<rparr>
                             in case env_sleep_error env (crawled st2) of
                                  Some e \<Rightarrow>
                                    (False, ctrl1,
                                     st2\<lparr>errs := errs st2 @ [PageException (crawled st2 + 1) e]\<rparr>)
                                | None \<Rightarrow> (True, ctrl1, st2))
                          else (False, ctrl1, st1))
                    else
                      (False, ctrl1,
                       st\<lparr>errs := errs st @
                          [ExtractionFailure (crawled st + 1) (extraction_error extraction)]\<rparr>))))"

lemma crawl_iteration_continues:
  "crawl_iteration env selectors ctrl st url = (True, ctrl', st') \<Longrightarrow> crawled st' = crawled st + 1"
  by (auto simp: crawl_iteration_def Let_def split: prod.splits if_splits option.splits)

text \<open>
  The loop \<open>while pages_crawled < max_pages and current_url\<close>; the second conjunct is
  Python truthiness (neither \<open>None\<close> nor the empty string).
\<close>

function crawl_loop ::
  "environment \<Rightarrow> string py_dict \<Rightarrow> int \<Rightarrow> browser_controller \<times> crawl_state \<Rightarrow>
     browser_controller \<times> crawl_state"
where
  "crawl_loop env selectors max_pages (ctrl, st) =
     (case current_url st of
        None \<Rightarrow> (ctrl, st)
      | Some url \<Rightarrow>
          if crawled st < max_pages \<and> url \<noteq> [] then
            (case crawl_iteration env selectors ctrl st url of
               (True, ctrl', st') \<Rightarrow> crawl_loop env selectors max_pages (ctrl', st')
             | (False, ctrl', st') \<Rightarrow> (ctrl', st'))
          else (ctrl, st))"
  by pat_completeness auto
termination
  apply (relation "measure (\<lambda>(env, selectors, max_pages, ctrl, st). nat (max_pages - crawled st))")
   apply simp
  apply (auto dest!: sym [THEN crawl_iteration_continues])
  done

declare crawl_loop.simps [simp del]

definition initial_crawl_state :: "string \<Rightarrow> crawl_state" where
  "initial_crawl_state url = \<lparr>all_jobs = [], crawled = 0, errs = [], current_url = Some url\<rparr>"

text \<open>The result built by the outer handler.\<close>

definition crawl_exception_result :: "crawl_state \<Rightarrow> py_error \<Rightarrow> crawl_result" where
  "crawl_exception_result st e =
     \<lparr>success = False, jobs = all_jobs st, pages_crawled = crawled st, total_pages = None,
      errors = errs st @ [CrawlException e], next_page_url = None, has_next_page = False\<rparr>"

definition crawl_jobs ::
  "environment \<Rightarrow> browser_controller \<Rightarrow> string \<Rightarrow> string py_dict \<Rightarrow> int \<Rightarrow>
     crawl_result \<times> browser_controller"
where
  "crawl_jobs env ctrl url selectors max_pages =
     (case env_agent_error env of
        Some e \<Rightarrow> (crawl_exception_result (initial_crawl_state url) e, ctrl)
      | None \<Rightarrow>
          (let (ctrl', st) = crawl_loop env selectors max_pages (ctrl, initial_crawl_state url)
           in case env_result_error env of
                Some e \<Rightarrow> (crawl_exception_result st e, ctrl')
              | None \<Rightarrow>
                  (\<lparr>success = (length (all_jobs st) > 0),
                    jobs = all_jobs st,
                    pages_crawled = crawled st,
                    total_pages = None,
                    errors = errs st,
                    next_page_url = (if crawled st < max_pages then current_url st else None),
                    has_next_page = (current_url st \<noteq> None \<and> crawled st < max_pages)\<rparr>,
                   ctrl')))"

text \<open>
  The states the loop passes through, each with the flag telling whether the loop is
  still running: the \<open>while\<close> test is evaluated only in states with flag \<open>True\<close>.
\<close>

inductive_set loop_states ::
  "environment \<Rightarrow> string py_dict \<Rightarrow> int \<Rightarrow> browser_controller \<Rightarrow> string \<Rightarrow>
     (bool \<times> browser_controller \<times> crawl_state) set"
  for env :: environment and selectors :: "string py_dict" and max_pages :: int
    and ctrl0 :: browser_controller and url0 :: string
where
  start: "(True, ctrl0, initial_crawl_state url0) \<in> loop_states env selectors max_pages ctrl0 url0"
| pass: "(True, ctrl, st) \<in> loop_states env selectors max_pages ctrl0 url0 \<Longrightarrow>
         current_url st = Some url \<Longrightarrow> crawled st < max_pages \<Longrightarrow> url \<noteq> [] \<Longrightarrow>
         crawl_iteration env selectors ctrl st url \<in> loop_states env selectors max_pages ctrl0 url0"

text \<open>Whether the page at \<open>url\<close> loads and its extraction succeeds.\<close>

definition page_extracted ::
  "environment \<Rightarrow> string py_dict \<Rightarrow> browser_controller \<Rightarrow> string \<Rightarrow> bool"
where
  "page_extracted env selectors ctrl url =
     (let (page_result, ctrl1) = load_page env ctrl url
      in load_success page_result \<and>
         (case current_page ctrl1 of
            None \<Rightarrow> False
          | Some pg \<Rightarrow> extraction_success (extract_jobs (env_urljoin env) pg selectors)))"

text \<open>The errors recorded when a page fails to load or to be extracted.\<close>

fun is_page_failure :: "crawl_error \<Rightarrow> bool" where
  "is_page_failure (PageLoadFailure n e) = True"
| "is_page_failure (ExtractionFailure n e) = True"
| "is_page_failure (PageException n e) = False"
| "is_page_failure (CrawlException e) = False"

text \<open>
  The identity a page shows to a site (agent, viewport, timezone, geolocation), read from
  what \<open>apply_stealth_measures\<close> wrote to it, and the identity of the page a controller
  currently holds.
\<close>

record fingerprint =
  fp_user_agent :: "string option"
  fp_viewport :: "(nat \<times> nat) option"
  fp_timezone :: "string option"
  fp_geolocation :: "(rat \<times> rat) option"

definition page_fingerprint :: "page \<Rightarrow> fingerprint" where
  "page_fingerprint pg =
     \<lparr>fp_user_agent =
        (case extra_http_headers pg of None \<Rightarrow> None | Some h \<Rightarrow> map_of h ''User-Agent''),
      fp_viewport = viewport_size pg,
      fp_timezone = timezone pg,
      fp_geolocation = geolocation pg\<rparr>"

definition session_fingerprint :: "browser_controller \<Rightarrow> fingerprint option" where
  "session_fingerprint ctrl = map_option page_fingerprint (current_page ctrl)"

section \<open>Job.calculate_quality_score (app/models/job.py)\<close>

datatype datetime = DateTime int int int int int int

record job =
  site_id :: string
  crawl_session_id :: string
  title :: "string option"
  company_name :: "string option"
  job_link :: "string option"
  location :: "string option"
  published_at :: "datetime option"
  job_description :: "string option"
  salary_range :: "string option"
  job_type :: "string option"
  experience_level :: "string option"
  education_level :: "string option"
  skills_required :: "string list option"
  remote_option :: bool
  raw_data :: "string py_dict option"
  data_quality_score :: rat

text \<open>
  What a required field adds to \<open>score\<close>.  For a string the code first asks whether the
  stripped value is non-empty and otherwise falls through to \<open>elif value\<close>, which holds
  for every non-empty string; a date always counts.
\<close>

definition string_field_score :: "string option \<Rightarrow> rat \<Rightarrow> rat" where
  "string_field_score v weight =
     (case v of
        None \<Rightarrow> 0
      | Some s \<Rightarrow>
          if s \<noteq> [] then (if length (py_strip s) > 0 then weight else weight) else 0)"

definition date_field_score :: "datetime option \<Rightarrow> rat \<Rightarrow> rat" where
  "date_field_score v weight = (case v of None \<Rightarrow> 0 | Some d \<Rightarrow> weight)"

text \<open>
  The dictionary \<open>required_fields\<close> in its order, each weight paired with what the
  field adds; the loop sums both columns.
\<close>

definition required_fields :: "job \<Rightarrow> (rat \<times> rat) list" where
  "required_fields j =
     [(3 / 10, string_field_score (title j) (3 / 10)),
      (2 / 10, string_field_score (company_name j) (2 / 10)),
      (1 / 10, string_field_score (location j) (1 / 10)),
      (2 / 10, string_field_score (job_description j) (2 / 10)),
      (1 / 10, date_field_score (published_at j) (1 / 10)),
      (1 / 10, string_field_score (job_link j) (1 / 10))]"

fun score_loop :: "(rat \<times> rat) list \<Rightarrow> rat \<times> rat \<Rightarrow> rat \<times> rat" where
  "score_loop [] acc = acc"
| "score_loop ((weight, gained) # rest) (score, total_weight) =
     score_loop rest (score + gained, total_weight + weight)"

definition string_bonus :: "string option \<Rightarrow> nat" where
  "string_bonus v =
     (case v of None \<Rightarrow> 0 | Some s \<Rightarrow> if s \<noteq> [] \<and> length (py_strip s) > 0 then 1 else 0)"

definition list_bonus :: "string list option \<Rightarrow> nat" where
  "list_bonus v = (case v of None \<Rightarrow> 0 | Some l \<Rightarrow> if l \<noteq> [] then 1 else 0)"

definition calculate_quality_score :: "job \<Rightarrow> rat" where
  "calculate_quality_score j =
     (let (score, total_weight) = score_loop (required_fields j) (0, 0);
          bonus_weight = 1 / 10;
          bonus_count = string_bonus (salary_range j) + string_bonus (job_type j)
                      + string_bonus (experience_level j) + list_bonus (skills_required j);
          bonus_score = (of_nat bonus_count / 4) * bonus_weight;
          final_score = (score / total_weight) + bonus_score
      in min final_score 1)"

definition update_quality_score :: "job \<Rightarrow> job" where
  "update_quality_score j = j\<lparr>data_quality_score := calculate_quality_score j\<rparr>"

section \<open>CrawlingService.save_crawl_results (app/services/crawling_service.py)\<close>

datatype session_status = Pending | Running | Completed | Failed | Cancelled

record crawl_session =
  session_ident :: string
  session_site_id :: string
  status :: session_status
  session_pages_crawled :: int
  jobs_found :: nat
  jobs_saved :: nat
  errors_count :: nat

definition complete_session :: "bool \<Rightarrow> crawl_session \<Rightarrow> crawl_session" where
  "complete_session ok s = s\<lparr>status := (if ok then Completed else Failed)\<rparr>"

text \<open>
  \<open>datetime.strptime\<close> is a parameter: it parses, raises \<open>ValueError\<close> (the next format
  is tried) or raises something else (the outer handler returns \<open>None\<close>).
\<close>

datatype strptime_result = Parsed datetime | ValueError | OtherError

definition date_formats :: "string list" where
  "date_formats =
     [''%Y-%m-%d'', ''%Y/%m/%d'', ''%m/%d/%Y'', ''%d/%m/%Y'',
      ''%Y-%m-%d %H:%M:%S'', ''%Y/%m/%d %H:%M:%S'']"

fun try_formats :: "(string \<Rightarrow> string \<Rightarrow> strptime_result) \<Rightarrow> string \<Rightarrow> string list \<Rightarrow> datetime option" where
  "try_formats strptime date_str [] = None"
| "try_formats strptime date_str (fmt # rest) =
     (case strptime (py_strip date_str) fmt of
        Parsed d \<Rightarrow> Some d
      | ValueError \<Rightarrow> try_formats strptime date_str rest
      | OtherError \<Rightarrow> None)"

definition parse_date :: "(string \<Rightarrow> string \<Rightarrow> strptime_result) \<Rightarrow> string option \<Rightarrow> datetime option" where
  "parse_date strptime date_str =
     (case date_str of
        None \<Rightarrow> None
      | Some s \<Rightarrow> if s = [] then None else try_formats strptime s date_formats)"

text \<open>The \<open>Job(...)\<close> built from one extracted record; the optional columns stay unset.\<close>

definition job_from_data ::
  "(string \<Rightarrow> string \<Rightarrow> strptime_result) \<Rightarrow> crawl_session \<Rightarrow> string py_dict \<Rightarrow> job"
where
  "job_from_data strptime session job_data =
     \<lparr>site_id = session_site_id session,
      crawl_session_id = session_ident session,
      title = Some (py_get job_data ''title'' []),
      company_name = Some (py_get job_data ''company'' []),
      job_link = Some (py_get job_data ''link'' []),
      location = Some (py_get job_data ''location'' []),
      published_at = parse_date strptime (map_of job_data ''published_at''),
      job_description = Some (py_get job_data ''description'' []),
      salary_range = None, job_type = None, experience_level = None, education_level = None,
      skills_required = None, remote_option = False,
      raw_data = Some job_data,
      data_quality_score = 0\<rparr>"

text \<open>The test \<open>job.data_quality_score >= 0.5\<close> that guards \<open>db.add(job)\<close>.\<close>

definition meets_quality_threshold :: "job \<Rightarrow> bool" where
  "meets_quality_threshold j = (data_quality_score j \<ge> 5 / 10)"

text \<open>
  The loop \<open>for job_data in jobs\<close>; its state is the list of jobs handed to \<open>db.add\<close>
  and the counter \<open>saved_jobs\<close>.
\<close>

fun save_loop ::
  "(string \<Rightarrow> string \<Rightarrow> strptime_result) \<Rightarrow> crawl_session \<Rightarrow> string py_dict list \<Rightarrow>
     job list \<times> nat \<Rightarrow> job list \<times> nat"
where
  "save_loop strptime session [] acc = acc"
| "save_loop strptime session (job_data # rest) (added, saved_jobs) =
     (let j = update_quality_score (job_from_data strptime session job_data)
      in if meets_quality_threshold j
         then save_loop strptime session rest (added @ [j], saved_jobs + 1)
         else save_loop strptime session rest (added, saved_jobs))"

record save_outcome =
  added_jobs :: "job list"
  saved_session :: crawl_session

text \<open>
  \<open>found\<close> is the session the query returns (or none) and \<open>commit_error\<close> the exception,
  if any, of \<open>db.commit()\<close>; on an exception the handler rolls back and re-raises.
\<close>

definition save_crawl_results ::
  "(string \<Rightarrow> string \<Rightarrow> strptime_result) \<Rightarrow> crawl_session option \<Rightarrow> py_error option \<Rightarrow>
     string \<Rightarrow> string py_dict list \<Rightarrow> crawl_result \<Rightarrow> py_error + save_outcome"
where
  "save_crawl_results strptime found commit_error ident job_list result =
     (case found of
        None \<Rightarrow> Inl (PyException (''session does not exist: '' @ ident))
      | Some session \<Rightarrow>
          (let (added, saved_jobs) = save_loop strptime session job_list ([], 0);
               session' = (complete_session True session)
                 \<lparr>session_pages_crawled := pages_crawled result,
                  jobs_found := length job_list,
                  jobs_saved := saved_jobs,
                  errors_count := length (errors result)\<rparr>
           in case commit_error of
                Some e \<Rightarrow> Inl e
              | None \<Rightarrow> Inr \<lparr>added_jobs = added, saved_session = session'\<rparr>))"

section \<open>Examples\<close>

definition one_tag :: tag where
  "one_tag = Tag ''div'' None None"

definition sample_soup :: soup where
  "sample_soup =
     \<lparr>select = (\<lambda>s. if s = ''.job-list'' then Inr [one_tag]
                    else if s = ''.job-item'' then Inr [one_tag, one_tag, one_tag]
                    else if s = ''div['' then Inl (PyException ''Malformed attribute selector'')
                    else Inr [])\<rparr>"

definition sample_selectors :: "string py_dict" where
  "sample_selectors = [(''jobList'', ''.job-list''), (''jobTitle'', ''div['')]"


text \<open>
  A page on which \<open>div\<close> matches ten elements and the first fallback pattern of the
  list-container role matches one.
\<close>

definition broad_soup :: soup where
  "broad_soup =
     \<lparr>select = (\<lambda>s. if s = ''div'' then Inr (replicate 10 one_tag)
                    else if s = ''.jobs-list'' then Inr [one_tag]
                    else Inr [])\<rparr>"

definition broad_analysis :: ai_analysis_response where
  "broad_analysis =
     \<lparr>confidence_score = 1, detected_elements = Map.empty,
      recommended_selectors = [''jobList'' \<mapsto> ''div''],
      analysis_notes = [], processing_time_ms = 0\<rparr>"

text \<open>
  A page with sixty \<open>.x\<close> elements, the first of them under a parent of class \<open>p\<close>;
  thirty of them are matched by the long selector and thirty by \<open>.p .x\<close>.
\<close>

definition x_tag :: tag where
  "x_tag = Tag ''span'' (Some [''x'']) (Some (Tag ''div'' (Some [''p'']) None))"

definition drift_soup :: soup where
  "drift_soup =
     \<lparr>select = (\<lambda>s. if s = ''a b c d .x'' then Inr (x_tag # replicate 29 x_tag)
                    else if s = ''.x'' then Inr (x_tag # replicate 59 x_tag)
                    else if s = ''.p .x'' then Inr (x_tag # replicate 29 x_tag)
                    else Inr [])\<rparr>"

definition parse_broad :: "string \<Rightarrow> py_error + soup" where
  "parse_broad html = Inr broad_soup"

definition parse_sample :: "string \<Rightarrow> py_error + soup" where
  "parse_sample html = Inr sample_soup"

text \<open>
  A listing page with one list container and three items: one without a title, one whose
  markup cannot be read, and one complete item that has only a title.
\<close>

definition simple_urljoin :: "string \<Rightarrow> string \<Rightarrow> py_error + string" where
  "simple_urljoin base_url url = Inr (base_url @ url)"

definition title_node :: element where
  "title_node =
     Element (\<lambda>s. Inr None) (\<lambda>s. Inr []) (\<lambda>a. Inr None)
       (Inr '' Engineer '') (Inr ''Engineer'') (Inl (PyException ''not clickable''))"

definition empty_item :: element where
  "empty_item =
     Element (\<lambda>s. Inr None) (\<lambda>s. Inr []) (\<lambda>a. Inr None)
       (Inr []) (Inr ''<li></li>'') (Inl (PyException ''not clickable''))"

definition detached_item :: element where
  "detached_item =
     Element (\<lambda>s. if s = ''.title'' then Inr (Some title_node) else Inr None)
       (\<lambda>s. Inr []) (\<lambda>a. Inr None)
       (Inr ''Engineer'') (Inl (PyException ''Element is not attached to the DOM''))
       (Inl (PyException ''not clickable''))"

definition good_item :: element where
  "good_item =
     Element (\<lambda>s. if s = ''.title'' then Inr (Some title_node) else Inr None)
       (\<lambda>s. Inr []) (\<lambda>a. Inr None)
       (Inr ''Engineer'') (Inr ''<h2>Engineer</h2>'') (Inl (PyException ''not clickable''))"

definition job_list_element :: element where
  "job_list_element =
     Element (\<lambda>s. Inr None)
       (\<lambda>s. if s = ''.job-item'' then Inr [empty_item, detached_item, good_item] else Inr [])
       (\<lambda>a. Inr None) (Inr ''Engineer'') (Inr ''<ul/>'') (Inl (PyException ''not clickable''))"

definition listing_page :: page where
  "listing_page =
     \<lparr>page_url = ''http://jobs.example/list'',
      page_content = Inr ''<html/>'',
      page_query_selector_all = (\<lambda>s. if s = ''.job-list'' then Inr [job_list_element] else Inr []),
      goto_error = (\<lambda>u. None),
      stealth_error = (\<lambda>op. None),
      extra_http_headers = None, viewport_size = None, init_scripts = 0,
      timezone = None, geolocation = None\<rparr>"

definition listing_selectors :: "string py_dict" where
  "listing_selectors =
     [(''jobList'', ''.job-list''), (''jobItem'', ''.job-item''), (''jobTitle'', ''.title'')]"

text \<open>A session that crawls the listing page above.\<close>

definition quiet_env :: environment where
  "quiet_env =
     \<lparr>env_settings = \<lparr>user_agent_rotation = True, human_behavior_simulation = True,
                      request_delay_min = 1, request_delay_max = 3\<rparr>,
      env_random_draw = (\<lambda>k c. k),
      env_urljoin = simple_urljoin,
      env_sleep_error = (\<lambda>n. None),
      env_agent_error = None,
      env_result_error = None\<rparr>"

definition sample_manager :: anti_detection_manager where
  "sample_manager =
     \<lparr>user_agents = default_user_agents, viewport_sizes = default_viewport_sizes,
      behavior_patterns = default_behavior_patterns,
      current_behavior =
        \<lparr>scroll_delay = (1, 3), click_delay = (1 / 2, 3 / 2), type_delay = (1 / 10, 3 / 10)\<rparr>\<rparr>"

definition listing_controller :: browser_controller where
  "listing_controller =
     \<lparr>browser = Some \<lparr>new_page = (\<lambda>k. Inr listing_page), pages_opened = 0\<rparr>,
      anti_detection = sample_manager,
      current_page = None,
      session_id = Some ''s1''\<rparr>"

definition listing_session :: crawl_session where
  "listing_session =
     \<lparr>session_ident = ''s1'', session_site_id = ''site'', status = Running,
      session_pages_crawled = 0, jobs_found = 0, jobs_saved = 0, errors_count = 0\<rparr>"

definition no_strptime :: "string \<Rightarrow> string \<Rightarrow> strptime_result" where
  "no_strptime s fmt = ValueError"

text \<open>A browser whose pages cannot be opened, and a run ended by the outer handler.\<close>

definition broken_controller :: browser_controller where
  "broken_controller =
     \<lparr>browser = Some \<lparr>new_page = (\<lambda>k. Inl (PyException ''Target closed'')), pages_opened = 0\<rparr>,
      anti_detection = sample_manager,
      current_page = None,
      session_id = Some ''s2''\<rparr>"

definition failing_env :: environment where
  "failing_env = quiet_env\<lparr>env_agent_error := Some (PyException ''agent'')\<rparr>"

definition listing_url :: string where
  "listing_url = ''http://jobs.example/list''"

definition titled_record :: "string py_dict" where
  "titled_record = [(''title'', ''Engineer''), (''raw_html'', ''<h2>Engineer</h2>'')]"


section \<open>Validation: the overall score\<close>

lemma validate_loop_fst:
  "fst (validate_loop doc sels (v, res)) =
     v + length (filter (\<lambda>(k, s). case select doc s of Inl e \<Rightarrow> False | Inr els \<Rightarrow> els \<noteq> []) sels)"
proof (induction sels arbitrary: v res)
  case Nil
  then show ?case by simp
next
  case (Cons p sels)
  obtain k s where p: "p = (k, s)" by (cases p)
  show ?case
  proof (cases "select doc s")
    case (Inl e)
    then show ?thesis using Cons.IH p by simp
  next
    case (Inr els)
    then show ?thesis using Cons.IH p by (simp add: Let_def)
  qed
qed

lemma matching_roles_card:
  assumes "distinct (map fst sels)"
  shows "card {k \<in> fst ` set sels. role_matches doc sels k} =
         length (filter (\<lambda>(k, s). case select doc s of Inl e \<Rightarrow> False | Inr els \<Rightarrow> els \<noteq> []) sels)"
proof -
  define P where "P = (\<lambda>p :: string \<times> string. case select doc (snd p) of Inl e \<Rightarrow> False | Inr els \<Rightarrow> els \<noteq> [])"
  have P_eq: "(\<lambda>(k, s). case select doc s of Inl e \<Rightarrow> False | Inr els \<Rightarrow> els \<noteq> []) = P"
    by (rule ext) (simp add: P_def split_beta)
  have rm: "role_matches doc sels k = P (k, s)" if "(k, s) \<in> set sels" for k s
  proof -
    from assms that have "map_of sels k = Some s" by (rule map_of_is_SomeI)
    then show ?thesis by (simp add: role_matches_def P_def)
  qed
  have "{k \<in> fst ` set sels. role_matches doc sels k} = fst ` {p \<in> set sels. P p}"
  proof (rule set_eqI, rule iffI)
    fix k assume "k \<in> {k \<in> fst ` set sels. role_matches doc sels k}"
    then obtain s where s: "(k, s) \<in> set sels" and m: "role_matches doc sels k"
      by (clarsimp simp: image_iff)
    from m rm [OF s] have "P (k, s)" by simp
    with s have "(k, s) \<in> {p \<in> set sels. P p}" by simp
    then show "k \<in> fst ` {p \<in> set sels. P p}" by (rule image_eqI [rotated]) simp
  next
    fix k assume "k \<in> fst ` {p \<in> set sels. P p}"
    then obtain p where p: "p \<in> set sels" "P p" "k = fst p" by blast
    then have s: "(k, snd p) \<in> set sels" by simp
    from p rm [OF s] have "role_matches doc sels k" by simp
    moreover from p have "k \<in> fst ` set sels" by simp
    ultimately show "k \<in> {k \<in> fst ` set sels. role_matches doc sels k}" by simp
  qed
  also have "\<dots> = set (map fst (filter P sels))" by simp
  finally have eq: "{k \<in> fst ` set sels. role_matches doc sels k} = set (map fst (filter P sels))" .
  have "distinct (map fst (filter P sels))"
    using assms by (rule distinct_map_filter)
  then have "card (set (map fst (filter P sels))) = length (map fst (filter P sels))"
    by (rule distinct_card)
  with eq show ?thesis by (simp add: P_eq)
qed
text \<open>
  Claim C1.  For every dictionary of role-to-locator entries and every document that
  parses, \<open>validate_selectors\<close> returns as \<open>overall_score\<close> the number of roles whose
  locator matches at least one element divided by the number of roles in the dictionary,
  and 0 for the empty dictionary; a locator whose evaluation raises counts as matching
  nothing (see \<open>role_matches\<close>).
\<close>

theorem validate_overall_score:
  assumes "distinct (map fst selectors)"
    and "parse_html html = Inr doc"
  shows "overall_score (validate_selectors parse_html selectors html) =
           (if selectors = [] then 0
            else of_nat (card {k \<in> fst ` set selectors. role_matches doc selectors k}) /
                 of_nat (card (fst ` set selectors)))"
proof -
  have total: "card (fst ` set selectors) = length selectors"
    using assms(1) by (metis distinct_card length_map set_map)
  obtain v res where loop: "validate_loop doc selectors (0, []) = (v, res)"
    by (cases "validate_loop doc selectors (0, [])")
  have "v = fst (validate_loop doc selectors (0, []))" using loop by simp
  also have "\<dots> = card {k \<in> fst ` set selectors. role_matches doc selectors k}"
    using matching_roles_card [OF assms(1)] by (simp add: validate_loop_fst)
  finally have v: "v = card {k \<in> fst ` set selectors. role_matches doc selectors k}" .
  show ?thesis
    using assms(2) loop v total by (simp add: validate_selectors_def)
qed

theorem validate_overall_score_witness:
  "overall_score (validate_selectors parse_sample sample_selectors ''<html/>'') = 1 / 2"
proof -
  have d: "distinct (map fst sample_selectors)" by (simp add: sample_selectors_def)
  have p: "parse_sample ''<html/>'' = Inr sample_soup" by (simp add: parse_sample_def)
  have s: "{k \<in> fst ` set sample_selectors. role_matches sample_soup sample_selectors k} = {''jobList''}"
    by (auto simp: role_matches_def sample_soup_def sample_selectors_def)
  have c: "card (fst ` set sample_selectors) = 2" by (simp add: sample_selectors_def)
  have n: "sample_selectors \<noteq> []" by (simp add: sample_selectors_def)
  show ?thesis
    unfolding validate_overall_score
        [of sample_selectors parse_sample "''<html/>''" sample_soup, OF d p] s c
    using n by simp
qed

section \<open>The optimizer's improvement step\<close>

lemma split_from_nonempty: "p \<in> set (split_from cur s) \<Longrightarrow> p \<noteq> []"
  by (induction s arbitrary: cur) (auto split: if_splits)

lemma py_split_last_nonempty: "py_split s \<noteq> [] \<Longrightarrow> last (py_split s) \<noteq> []"
  using split_from_nonempty [of "last (py_split s)" "[]" s] by (simp add: py_split_def)

lemma simplify_move_accepts:
  assumes "simplify_move s elements doc = Inr (Some s')"
  shows "length (py_split s) > 4 \<and> s' = last (py_split s) \<and>
         (\<exists>t. select doc s' = Inr t \<and> t \<noteq> [] \<and> length t \<le> 2 * length elements)"
  using assms
  by (auto simp: simplify_move_def Let_def mult.commute split: if_splits sum.splits)

lemma narrow_move_accepts:
  assumes "narrow_move s elements doc = Inr (Some s')"
  shows "length elements > 50 \<and>
         (\<exists>parent classes t. tag_parent (hd elements) = Some parent \<and>
             tag_class parent = Some classes \<and> classes \<noteq> [] \<and>
             s' = ''.'' @ py_join ''.'' classes @ '' '' @ s \<and>
             select doc s' = Inr t \<and> t \<noteq> [] \<and> length t < length elements)"
  using assms
  by (auto simp: narrow_move_def Let_def split: if_splits sum.splits list.splits option.splits)

lemma improve_selector_nonempty:
  assumes "improve_selector s elements doc = Inr (Some s')"
  shows "s' \<noteq> []"
proof (cases "simplify_move s elements doc")
  case (Inl e)
  with assms show ?thesis by (simp add: improve_selector_def)
next
  case (Inr r)
  show ?thesis
  proof (cases r)
    case None
    with Inr assms have "narrow_move s elements doc = Inr (Some s')"
      by (simp add: improve_selector_def)
    from narrow_move_accepts [OF this] show ?thesis by auto
  next
    case (Some x)
    with Inr assms have x: "x = s'" by (simp add: improve_selector_def)
    from simplify_move_accepts [of s elements doc s'] Inr Some x
    have "length (py_split s) > 4" and "s' = last (py_split s)" by simp_all
    then show ?thesis using py_split_last_nonempty [of s] by (cases "py_split s") auto
  qed
qed


text \<open>
  Claim C3 (amended).  For every non-empty locator that matches something and scores
  below 0.7, the optimizer runs \<open>improve_selector\<close>, which accepts a new locator only by
  one of two moves, tried once each in this order and without recursion: (1) the locator
  has more than four whitespace-separated parts and its last part alone matches at least
  one and at most twice as many elements as the original; (2) the locator matches more
  than 50 elements and, prefixed by the class of the first matched element's parent, it
  matches fewer elements but at least one.  An accepted locator is what the optimizer
  returns.  When neither move is accepted the step signals \<open>None\<close> and the optimizer
  keeps the original locator, which \<open>generate_selectors\<close> stores for the role; the
  fallback patterns are not consulted.
\<close>

theorem improve_selector_two_moves:
  assumes "ai_selector \<noteq> []"
    and "select doc ai_selector = Inr elements"
    and "elements \<noteq> []"
    and "evaluate_selector_quality selector_type ai_selector elements doc < 7 / 10"
  shows "(improve_selector ai_selector elements doc = Inr (Some s') \<longrightarrow>
            ((length (py_split ai_selector) > 4 \<and> s' = last (py_split ai_selector) \<and>
              (\<exists>t. select doc s' = Inr t \<and> t \<noteq> [] \<and> length t \<le> 2 * length elements))
             \<or>
             (length elements > 50 \<and>
              (\<exists>parent classes t. tag_parent (hd elements) = Some parent \<and>
                  tag_class parent = Some classes \<and> classes \<noteq> [] \<and>
                  s' = ''.'' @ py_join ''.'' classes @ '' '' @ ai_selector \<and>
                  select doc s' = Inr t \<and> t \<noteq> [] \<and> length t < length elements)))
            \<and> optimize_selector selector_type ai_selector doc detected = Some s')
       \<and> (improve_selector ai_selector elements doc = Inr None \<longrightarrow>
            optimize_selector selector_type ai_selector doc detected = Some ai_selector \<and>
            (recommended_selectors ai_analysis selector_type = Some ai_selector \<longrightarrow>
             detected_elements ai_analysis = detected \<longrightarrow>
               generate_loop doc ai_analysis (selector_type # rest) selectors =
               generate_loop doc ai_analysis rest
                 (AList.update selector_type ai_selector selectors)))"
proof (intro conjI impI)
  assume imp: "improve_selector ai_selector elements doc = Inr (Some s')"
  show "(length (py_split ai_selector) > 4 \<and> s' = last (py_split ai_selector) \<and>
              (\<exists>t. select doc s' = Inr t \<and> t \<noteq> [] \<and> length t \<le> 2 * length elements))
             \<or>
             (length elements > 50 \<and>
              (\<exists>parent classes t. tag_parent (hd elements) = Some parent \<and>
                  tag_class parent = Some classes \<and> classes \<noteq> [] \<and>
                  s' = ''.'' @ py_join ''.'' classes @ '' '' @ ai_selector \<and>
                  select doc s' = Inr t \<and> t \<noteq> [] \<and> length t < length elements))"
  proof (cases "simplify_move ai_selector elements doc")
    case (Inl e)
    with imp show ?thesis by (simp add: improve_selector_def)
  next
    case (Inr r)
    show ?thesis
    proof (cases r)
      case None
      with Inr imp have "narrow_move ai_selector elements doc = Inr (Some s')"
        by (simp add: improve_selector_def)
      from narrow_move_accepts [OF this] show ?thesis by (rule disjI2)
    next
      case (Some x)
      with Inr imp have "simplify_move ai_selector elements doc = Inr (Some s')"
        by (simp add: improve_selector_def)
      from simplify_move_accepts [OF this] show ?thesis by (rule disjI1)
    qed
  qed
  from improve_selector_nonempty [OF imp] have "s' \<noteq> []" .
  with assms imp show "optimize_selector selector_type ai_selector doc detected = Some s'"
    by (simp add: optimize_selector_def optimize_body_def)
next
  assume imp: "improve_selector ai_selector elements doc = Inr None"
  with assms show keep: "optimize_selector selector_type ai_selector doc detected = Some ai_selector"
    by (simp add: optimize_selector_def optimize_body_def)
  assume "recommended_selectors ai_analysis selector_type = Some ai_selector"
    and "detected_elements ai_analysis = detected"
  with keep assms(1)
  show "generate_loop doc ai_analysis (selector_type # rest) selectors =
        generate_loop doc ai_analysis rest (AList.update selector_type ai_selector selectors)"
    by simp
qed


lemma broad_select: "select broad_soup ''div'' = Inr (replicate 10 one_tag)"
  by (simp add: broad_soup_def)

lemma broad_quality:
  "evaluate_selector_quality ''jobList'' ''div'' (replicate 10 one_tag) broad_soup = 1 / 2"
  by code_simp

lemma broad_improve: "improve_selector ''div'' (replicate 10 one_tag) broad_soup = Inr None"
  by code_simp

lemma drift_select: "select drift_soup ''a b c d .x'' = Inr (x_tag # replicate 29 x_tag)"
  by (simp add: drift_soup_def)

lemma drift_select_x: "select drift_soup ''.x'' = Inr (x_tag # replicate 59 x_tag)"
  by (simp add: drift_soup_def)

lemma drift_quality:
  "evaluate_selector_quality ''jobList'' ''a b c d .x'' (x_tag # replicate 29 x_tag) drift_soup = 1 / 2"
  by code_simp

lemma drift_improve:
  "improve_selector ''a b c d .x'' (x_tag # replicate 29 x_tag) drift_soup = Inr (Some ''.x'')"
  by code_simp

lemma drift_improve_again:
  "improve_selector ''.x'' (x_tag # replicate 59 x_tag) drift_soup = Inr (Some ''.p .x'')"
  by code_simp

theorem improve_selector_two_moves_witness:
  "optimize_selector ''jobList'' ''div'' broad_soup Map.empty = Some ''div'' \<and>
   optimize_selector ''jobList'' ''a b c d .x'' drift_soup Map.empty = Some ''.x''"
proof -
  have ne: "''div'' \<noteq> []" "replicate 10 one_tag \<noteq> []" by simp_all
  have q: "evaluate_selector_quality ''jobList'' ''div'' (replicate 10 one_tag) broad_soup < 7 / 10"
    by (simp add: broad_quality)
  have ne2: "''a b c d .x'' \<noteq> []" "x_tag # replicate 29 x_tag \<noteq> []" by simp_all
  have q2: "evaluate_selector_quality ''jobList'' ''a b c d .x'' (x_tag # replicate 29 x_tag) drift_soup < 7 / 10"
    by (simp add: drift_quality)
  from improve_selector_two_moves [OF ne(1) broad_select ne(2) q, of _ Map.empty] broad_improve
  have a: "optimize_selector ''jobList'' ''div'' broad_soup Map.empty = Some ''div''" by blast
  from improve_selector_two_moves [OF ne2(1) drift_select ne2(2) q2, of "''.x''" Map.empty] drift_improve
  have b: "optimize_selector ''jobList'' ''a b c d .x'' drift_soup Map.empty = Some ''.x''" by blast
  from a b show ?thesis by (rule conjI)
qed

theorem fallback_not_consulted_counterexample:
  "select broad_soup ''div'' = Inr (replicate 10 one_tag) \<and>
   evaluate_selector_quality ''jobList'' ''div'' (replicate 10 one_tag) broad_soup < 7 / 10 \<and>
   improve_selector ''div'' (replicate 10 one_tag) broad_soup = Inr None \<and>
   generate_fallback_selector ''jobList'' broad_soup = Some ''.jobs-list'' \<and>
   generate_selectors parse_broad broad_analysis ''<html/>'' = Inr [(''jobList'', ''div'')]"
proof (intro conjI)
  show "select broad_soup ''div'' = Inr (replicate 10 one_tag)" by (rule broad_select)
  show "evaluate_selector_quality ''jobList'' ''div'' (replicate 10 one_tag) broad_soup < 7 / 10"
    by (simp add: broad_quality)
  show "improve_selector ''div'' (replicate 10 one_tag) broad_soup = Inr None" by (rule broad_improve)
  show "generate_fallback_selector ''jobList'' broad_soup = Some ''.jobs-list''" by code_simp
  show "generate_selectors parse_broad broad_analysis ''<html/>'' = Inr [(''jobList'', ''div'')]"
    by code_simp
qed

lemma improve_selector_matches:
  assumes "improve_selector s elements doc = Inr (Some s')"
  shows "\<exists>t. select doc s' = Inr t \<and> t \<noteq> []"
proof (cases "simplify_move s elements doc")
  case (Inl e)
  with assms show ?thesis by (simp add: improve_selector_def)
next
  case (Inr r)
  show ?thesis
  proof (cases r)
    case None
    with Inr assms have "narrow_move s elements doc = Inr (Some s')"
      by (simp add: improve_selector_def)
    from narrow_move_accepts [OF this] show ?thesis by blast
  next
    case (Some x)
    with Inr assms have "simplify_move s elements doc = Inr (Some s')"
      by (simp add: improve_selector_def)
    from simplify_move_accepts [OF this] show ?thesis by blast
  qed
qed

text \<open>
  Claim C4 (amended).  The improvement step is not idempotent in general.  What holds:
  if improving \<open>s\<close> yields \<open>s'\<close>, and \<open>s'\<close> has at most four whitespace-separated parts
  and matches at most 50 elements of the same document, then improving \<open>s'\<close> signals
  "not improved", so the optimizer returns \<open>s'\<close> again.
\<close>

theorem improve_selector_stable:
  assumes "improve_selector s elements doc = Inr (Some s')"
    and "select doc s' = Inr elements'"
    and "length (py_split s') \<le> 4"
    and "length elements' \<le> 50"
  shows "improve_selector s' elements' doc = Inr None \<and>
         optimize_selector selector_type s' doc detected = Some s'"
proof
  from assms(3,4) show none: "improve_selector s' elements' doc = Inr None"
    by (simp add: improve_selector_def simplify_move_def narrow_move_def)
  have ne: "s' \<noteq> []" using assms(1) by (rule improve_selector_nonempty)
  from improve_selector_matches [OF assms(1)] assms(2) have "elements' \<noteq> []" by auto
  with ne assms(2) none show "optimize_selector selector_type s' doc detected = Some s'"
    by (simp add: optimize_selector_def optimize_body_def Let_def)
qed


theorem improve_selector_stable_witness:
  "improve_selector ''.p .x'' (x_tag # replicate 29 x_tag) drift_soup = Inr None \<and>
   optimize_selector ''jobList'' ''.p .x'' drift_soup Map.empty = Some ''.p .x''"
proof -
  have sel: "select drift_soup ''.p .x'' = Inr (x_tag # replicate 29 x_tag)"
    by (simp add: drift_soup_def)
  have parts: "length (py_split ''.p .x'') \<le> 4" by code_simp
  have cnt: "length (x_tag # replicate 29 x_tag) \<le> 50" by simp
  show ?thesis
    by (rule improve_selector_stable [OF drift_improve_again sel parts cnt])
qed

theorem improve_not_idempotent_counterexample:
  "select drift_soup ''a b c d .x'' = Inr (x_tag # replicate 29 x_tag) \<and>
   improve_selector ''a b c d .x'' (x_tag # replicate 29 x_tag) drift_soup = Inr (Some ''.x'') \<and>
   select drift_soup ''.x'' = Inr (x_tag # replicate 59 x_tag) \<and>
   improve_selector ''.x'' (x_tag # replicate 59 x_tag) drift_soup = Inr (Some ''.p .x'') \<and>
   ''.p .x'' \<noteq> ''.x'' \<and>
   optimize_selector ''jobList'' ''a b c d .x'' drift_soup Map.empty = Some ''.x'' \<and>
   optimize_selector ''jobList'' ''.x'' drift_soup Map.empty = Some ''.p .x''"
proof (intro conjI)
  show "select drift_soup ''a b c d .x'' = Inr (x_tag # replicate 29 x_tag)" by (rule drift_select)
  show "improve_selector ''a b c d .x'' (x_tag # replicate 29 x_tag) drift_soup = Inr (Some ''.x'')"
    by (rule drift_improve)
  show "select drift_soup ''.x'' = Inr (x_tag # replicate 59 x_tag)" by (rule drift_select_x)
  show "improve_selector ''.x'' (x_tag # replicate 59 x_tag) drift_soup = Inr (Some ''.p .x'')"
    by (rule drift_improve_again)
  show "''.p .x'' \<noteq> ''.x''" by simp
  show "optimize_selector ''jobList'' ''a b c d .x'' drift_soup Map.empty = Some ''.x''"
    by code_simp
  show "optimize_selector ''jobList'' ''.x'' drift_soup Map.empty = Some ''.p .x''"
    by code_simp
qed

section \<open>Locators whose evaluation raises\<close>






section \<open>Extraction of items\<close>












section \<open>The traversal loop\<close>

lemma crawl_iteration_outcome:
  assumes "crawl_iteration env sels c st u = (flag, c', st')"
  shows "(page_extracted env sels c u \<longrightarrow>
            crawled st' = crawled st + 1 \<and>
            list_ex is_page_failure (errs st') = list_ex is_page_failure (errs st))
       \<and> (\<not> page_extracted env sels c u \<longrightarrow>
            \<not> flag \<and> crawled st' = crawled st \<and> current_url st' = current_url st \<and>
            all_jobs st' = all_jobs st \<and> list_ex is_page_failure (errs st'))"
proof (cases "load_page env c u")
  case (Pair page_result c1)
  show ?thesis
  proof (cases "load_success page_result")
    case False
    with Pair assms show ?thesis
      by (auto simp: crawl_iteration_def page_extracted_def)
  next
    case True
    note loaded = this
    show ?thesis
    proof (cases "current_page c1")
      case None
      with Pair loaded assms show ?thesis
        by (auto simp: crawl_iteration_def page_extracted_def)
    next
      case (Some pg)
      show ?thesis
      proof (cases "extraction_success (extract_jobs (env_urljoin env) pg sels)")
        case False
        with Pair loaded Some assms show ?thesis
          by (auto simp: crawl_iteration_def page_extracted_def Let_def)
      next
        case True
        with Pair loaded Some assms show ?thesis
          by (auto simp: crawl_iteration_def page_extracted_def Let_def
                   split: if_splits option.splits)
      qed
    qed
  qed
qed

lemma crawl_iteration_flag:
  assumes "crawl_iteration env sels c st u = (True, c', st')"
  shows "page_extracted env sels c u"
  using crawl_iteration_outcome [OF assms] by blast

lemma loop_states_bounded:
  assumes "0 \<le> max_pages" and "x \<in> loop_states env sels max_pages ctrl0 url0"
  shows "0 \<le> crawled (snd (snd x)) \<and> crawled (snd (snd x)) \<le> max_pages"
  using assms(2)
proof (induction rule: loop_states.induct)
  case start
  from assms(1) show ?case by (simp add: initial_crawl_state_def)
next
  case (pass ctrl st url)
  obtain flag c' st' where it: "crawl_iteration env sels ctrl st url = (flag, c', st')"
    by (cases "crawl_iteration env sels ctrl st url")
  from crawl_iteration_outcome [OF it]
  have "crawled st' = crawled st + 1 \<or> crawled st' = crawled st" by blast
  with pass it show ?case by auto
qed

lemma crawl_loop_unfold:
  "crawl_loop env sels max_pages (ctrl, st) =
     (case current_url st of
        None \<Rightarrow> (ctrl, st)
      | Some url \<Rightarrow>
          if crawled st < max_pages \<and> url \<noteq> [] then
            (case crawl_iteration env sels ctrl st url of
               (True, ctrl', st') \<Rightarrow> crawl_loop env sels max_pages (ctrl', st')
             | (False, ctrl', st') \<Rightarrow> (ctrl', st'))
          else (ctrl, st))"
  by (rule crawl_loop.simps)

lemma crawl_loop_final:
  assumes "(True, ctrl, st) \<in> loop_states env sels max_pages ctrl0 url0"
    and "\<not> list_ex is_page_failure (errs st)"
    and "crawl_loop env sels max_pages (ctrl, st) = (c', st')"
  shows "(\<exists>flag. (flag, c', st') \<in> loop_states env sels max_pages ctrl0 url0) \<and>
         (list_ex is_page_failure (errs st') \<longrightarrow>
            (\<exists>c s u. (True, c, s) \<in> loop_states env sels max_pages ctrl0 url0 \<and>
                current_url s = Some u \<and> u \<noteq> [] \<and> crawled s < max_pages \<and>
                \<not> page_extracted env sels c u \<and>
                current_url st' = Some u \<and> crawled st' = crawled s))"
  using assms
proof (induction "nat (max_pages - crawled st)" arbitrary: ctrl st rule: less_induct)
  case less
  show ?case
  proof (cases "current_url st")
    case None
    with less.prems(3) have "c' = ctrl" "st' = st" by (simp_all add: crawl_loop_unfold)
    with less.prems(1,2) show ?thesis by blast
  next
    case (Some u)
    show ?thesis
    proof (cases "crawled st < max_pages \<and> u \<noteq> []")
      case False
      with Some less.prems(3) have "c' = ctrl" "st' = st" by (auto simp: crawl_loop_unfold)
      with less.prems(1,2) show ?thesis by blast
    next
      case True
      obtain flag c1 st1 where it: "crawl_iteration env sels ctrl st u = (flag, c1, st1)"
        by (cases "crawl_iteration env sels ctrl st u")
      from loop_states.pass [OF less.prems(1) Some] True it
      have mem: "(flag, c1, st1) \<in> loop_states env sels max_pages ctrl0 url0" by simp
      note out = crawl_iteration_outcome [OF it]
      show ?thesis
      proof (cases flag)
        case True
        note running = this
        with it have ext: "page_extracted env sels ctrl u" by (simp add: crawl_iteration_flag)
        with out have cnt: "crawled st1 = crawled st + 1"
          and clean: "\<not> list_ex is_page_failure (errs st1)" using less.prems(2) by simp_all
        from cnt \<open>crawled st < max_pages \<and> u \<noteq> []\<close>
        have smaller: "nat (max_pages - crawled st1) < nat (max_pages - crawled st)" by simp
        from less.prems(3) Some \<open>crawled st < max_pages \<and> u \<noteq> []\<close> it running
        have "crawl_loop env sels max_pages (c1, st1) = (c', st')"
          by (simp add: crawl_loop_unfold [of env sels max_pages ctrl st])
        with less.hyps [OF smaller _ clean] mem running show ?thesis by simp
      next
        case False
        with less.prems(3) Some \<open>crawled st < max_pages \<and> u \<noteq> []\<close> it
        have fin: "c' = c1" "st' = st1"
          by (simp_all add: crawl_loop_unfold [of env sels max_pages ctrl st])
        show ?thesis
        proof (intro conjI impI)
          from mem fin show "\<exists>flag. (flag, c', st') \<in> loop_states env sels max_pages ctrl0 url0"
            by blast
        next
          assume bad: "list_ex is_page_failure (errs st')"
          have "\<not> page_extracted env sels ctrl u"
          proof
            assume "page_extracted env sels ctrl u"
            with out have "list_ex is_page_failure (errs st1) = list_ex is_page_failure (errs st)"
              by simp
            with bad fin less.prems(2) show False by simp
          qed
          with out have "crawled st1 = crawled st" "current_url st1 = current_url st"
            and nx: "\<not> page_extracted env sels ctrl u" by simp_all
          with fin Some True less.prems(1)
          show "\<exists>c s u. (True, c, s) \<in> loop_states env sels max_pages ctrl0 url0 \<and>
                current_url s = Some u \<and> u \<noteq> [] \<and> crawled s < max_pages \<and>
                \<not> page_extracted env sels c u \<and>
                current_url st' = Some u \<and> crawled st' = crawled s"
            by (intro exI [of _ ctrl] exI [of _ st] exI [of _ u]) simp
        qed
      qed
    qed
  qed
qed


lemma crawl_loop_from_start:
  assumes "crawl_loop env sels max_pages (ctrl, initial_crawl_state url) = (c', st')"
  shows "(\<exists>flag. (flag, c', st') \<in> loop_states env sels max_pages ctrl url) \<and>
         (list_ex is_page_failure (errs st') \<longrightarrow>
            (\<exists>c s u. (True, c, s) \<in> loop_states env sels max_pages ctrl url \<and>
                current_url s = Some u \<and> u \<noteq> [] \<and> crawled s < max_pages \<and>
                \<not> page_extracted env sels c u \<and>
                current_url st' = Some u \<and> crawled st' = crawled s))"
proof (rule crawl_loop_final [OF loop_states.start _ assms])
  show "\<not> list_ex is_page_failure (errs (initial_crawl_state url))"
    by (simp add: initial_crawl_state_def)
qed

lemma crawl_jobs_pages_crawled:
  assumes "0 \<le> max_pages"
  shows "pages_crawled (fst (crawl_jobs env ctrl url sels max_pages)) \<le> max_pages"
proof (cases "env_agent_error env")
  case (Some e)
  with assms show ?thesis
    by (simp add: crawl_jobs_def crawl_exception_result_def initial_crawl_state_def)
next
  case None
  obtain c' st' where loop: "crawl_loop env sels max_pages (ctrl, initial_crawl_state url) = (c', st')"
    by (cases "crawl_loop env sels max_pages (ctrl, initial_crawl_state url)")
  from crawl_loop_from_start [OF loop]
  obtain flag where "(flag, c', st') \<in> loop_states env sels max_pages ctrl url" by blast
  from loop_states_bounded [OF assms this] have "crawled st' \<le> max_pages" by simp
  with None loop show ?thesis
    by (cases "env_result_error env") (simp_all add: crawl_jobs_def crawl_exception_result_def)
qed

text \<open>
  Claim C2.  For a page cap \<open>max_pages \<ge> 0\<close> (the request schema admits 1 to 100), the
  count of crawled pages never exceeds the cap: not in the result of \<open>crawl_jobs\<close> and
  not in any state the loop passes through.  One pass of the loop raises the count by
  exactly 1 when the page loads and its extraction succeeds, and leaves it unchanged
  when the load or the extraction fails.
\<close>

theorem pages_crawled_within_cap:
  assumes "0 \<le> max_pages"
  shows "pages_crawled (fst (crawl_jobs env ctrl url sels max_pages)) \<le> max_pages
       \<and> (\<forall>flag c st. (flag, c, st) \<in> loop_states env sels max_pages ctrl url \<longrightarrow>
             0 \<le> crawled st \<and> crawled st \<le> max_pages)
       \<and> (\<forall>c st u flag c' st'. crawl_iteration env sels c st u = (flag, c', st') \<longrightarrow>
             crawled st' = crawled st + (if page_extracted env sels c u then 1 else 0))"
proof (intro conjI allI impI)
  show "pages_crawled (fst (crawl_jobs env ctrl url sels max_pages)) \<le> max_pages"
    using assms by (rule crawl_jobs_pages_crawled)
next
  fix flag c st
  assume "(flag, c, st) \<in> loop_states env sels max_pages ctrl url"
  from loop_states_bounded [OF assms this]
  show "0 \<le> crawled st" and "crawled st \<le> max_pages" by simp_all
next
  fix c st u flag c' st'
  assume "crawl_iteration env sels c st u = (flag, c', st')"
  from crawl_iteration_outcome [OF this]
  show "crawled st' = crawled st + (if page_extracted env sels c u then 1 else 0)" by simp
qed

text \<open>
  Claim C9.  In every result of \<open>crawl_jobs\<close>, \<open>has_next_page\<close> holds exactly when
  \<open>next_page_url\<close> is not \<open>None\<close>.  When the run is not ended by the outer handler and
  its errors contain a page-load or extraction failure, the result has
  \<open>has_next_page = True\<close> and its \<open>next_page_url\<close> is the address of the page that
  failed: the address of a loop state, below the cap, whose page was not extracted.
  When the outer handler ends the run, \<open>has_next_page\<close> is \<open>False\<close> and
  \<open>next_page_url\<close> is \<open>None\<close>.
\<close>

theorem has_next_page_iff_next_url:
  "(has_next_page (fst (crawl_jobs env ctrl url sels max_pages)) \<longleftrightarrow>
      next_page_url (fst (crawl_jobs env ctrl url sels max_pages)) \<noteq> None)
   \<and> (env_agent_error env = None \<and> env_result_error env = None \<and>
       list_ex is_page_failure (errors (fst (crawl_jobs env ctrl url sels max_pages))) \<longrightarrow>
         has_next_page (fst (crawl_jobs env ctrl url sels max_pages)) \<and>
         (\<exists>c s u. (True, c, s) \<in> loop_states env sels max_pages ctrl url \<and>
              current_url s = Some u \<and> u \<noteq> [] \<and> crawled s < max_pages \<and>
              \<not> page_extracted env sels c u \<and>
              next_page_url (fst (crawl_jobs env ctrl url sels max_pages)) = Some u \<and>
              pages_crawled (fst (crawl_jobs env ctrl url sels max_pages)) = crawled s))
   \<and> (env_agent_error env \<noteq> None \<or> env_result_error env \<noteq> None \<longrightarrow>
         \<not> has_next_page (fst (crawl_jobs env ctrl url sels max_pages)) \<and>
         next_page_url (fst (crawl_jobs env ctrl url sels max_pages)) = None)"
proof -
  obtain c' st' where loop: "crawl_loop env sels max_pages (ctrl, initial_crawl_state url) = (c', st')"
    by (cases "crawl_loop env sels max_pages (ctrl, initial_crawl_state url)")
  have iff: "has_next_page (fst (crawl_jobs env ctrl url sels max_pages)) \<longleftrightarrow>
      next_page_url (fst (crawl_jobs env ctrl url sels max_pages)) \<noteq> None"
    using loop
    by (cases "env_agent_error env"; cases "env_result_error env")
       (simp_all add: crawl_jobs_def crawl_exception_result_def)
  have outer: "\<not> has_next_page (fst (crawl_jobs env ctrl url sels max_pages)) \<and>
         next_page_url (fst (crawl_jobs env ctrl url sels max_pages)) = None"
    if "env_agent_error env \<noteq> None \<or> env_result_error env \<noteq> None"
    using that loop
    by (cases "env_agent_error env"; cases "env_result_error env")
       (simp_all add: crawl_jobs_def crawl_exception_result_def)
  have failed: "has_next_page (fst (crawl_jobs env ctrl url sels max_pages)) \<and>
         (\<exists>c s u. (True, c, s) \<in> loop_states env sels max_pages ctrl url \<and>
              current_url s = Some u \<and> u \<noteq> [] \<and> crawled s < max_pages \<and>
              \<not> page_extracted env sels c u \<and>
              next_page_url (fst (crawl_jobs env ctrl url sels max_pages)) = Some u \<and>
              pages_crawled (fst (crawl_jobs env ctrl url sels max_pages)) = crawled s)"
    if h: "env_agent_error env = None \<and> env_result_error env = None \<and>
       list_ex is_page_failure (errors (fst (crawl_jobs env ctrl url sels max_pages)))"
  proof -
    from h loop have res: "fst (crawl_jobs env ctrl url sels max_pages) =
        \<lparr>success = (length (all_jobs st') > 0), jobs = all_jobs st', pages_crawled = crawled st',
         total_pages = None, errors = errs st',
         next_page_url = (if crawled st' < max_pages then current_url st' else None),
         has_next_page = (current_url st' \<noteq> None \<and> crawled st' < max_pages)\<rparr>"
      by (simp add: crawl_jobs_def)
    with h have "list_ex is_page_failure (errs st')" by simp
    with crawl_loop_from_start [OF loop]
    obtain c s u where w: "(True, c, s) \<in> loop_states env sels max_pages ctrl url"
      "current_url s = Some u" "u \<noteq> []" "crawled s < max_pages"
      "\<not> page_extracted env sels c u" "current_url st' = Some u" "crawled st' = crawled s"
      by blast
    from w res have "has_next_page (fst (crawl_jobs env ctrl url sels max_pages))" by simp
    moreover from w res
    have "next_page_url (fst (crawl_jobs env ctrl url sels max_pages)) = Some u"
      and "pages_crawled (fst (crawl_jobs env ctrl url sels max_pages)) = crawled s" by simp_all
    ultimately show ?thesis using w by blast
  qed
  from iff failed outer show ?thesis by blast
qed

text \<open>
  Claim C6 (amended).  When a traversal completes (the outer handler is not entered), the
  result's \<open>success\<close> field is true exactly when at least one record was extracted, that
  is, when \<open>jobs\<close> is non-empty; the quality threshold plays no part in it.
\<close>

theorem success_iff_jobs_found:
  assumes "env_agent_error env = None" and "env_result_error env = None"
  shows "success (fst (crawl_jobs env ctrl url sels max_pages)) \<longleftrightarrow>
         length (jobs (fst (crawl_jobs env ctrl url sels max_pages))) > 0"
proof -
  obtain c' st' where loop: "crawl_loop env sels max_pages (ctrl, initial_crawl_state url) = (c', st')"
    by (cases "crawl_loop env sels max_pages (ctrl, initial_crawl_state url)")
  with assms show ?thesis by (simp add: crawl_jobs_def)
qed


lemma listing_crawl:
  "fst (crawl_jobs quiet_env listing_controller listing_url listing_selectors 3) =
     \<lparr>success = True, jobs = [titled_record], pages_crawled = 1, total_pages = None,
      errors = [], next_page_url = Some listing_url, has_next_page = True\<rparr>"
  by code_simp

lemma broken_crawl:
  "fst (crawl_jobs quiet_env broken_controller listing_url listing_selectors 3) =
     \<lparr>success = False, jobs = [], pages_crawled = 0, total_pages = None,
      errors = [PageLoadFailure 1 (Some (PyException ''Target closed''))],
      next_page_url = Some listing_url, has_next_page = True\<rparr>"
  by code_simp

lemma listing_page_extracted:
  "page_extracted quiet_env listing_selectors listing_controller listing_url"
  by code_simp

theorem pages_crawled_within_cap_witness:
  "pages_crawled (fst (crawl_jobs quiet_env listing_controller listing_url listing_selectors 3)) \<le> 3 \<and>
   crawled (initial_crawl_state listing_url) \<le> 3 \<and>
   crawled (snd (snd (crawl_iteration quiet_env listing_selectors listing_controller
                        (initial_crawl_state listing_url) listing_url))) = 1"
proof -
  have cap: "(0::int) \<le> 3" by simp
  note t = pages_crawled_within_cap [OF cap, of quiet_env listing_controller listing_url listing_selectors]
  from t have 1: "pages_crawled (fst (crawl_jobs quiet_env listing_controller listing_url listing_selectors 3)) \<le> 3"
    by blast
  from t loop_states.start [of listing_controller listing_url quiet_env listing_selectors 3]
  have 2: "crawled (initial_crawl_state listing_url) \<le> 3" by blast
  have "crawl_iteration quiet_env listing_selectors listing_controller
          (initial_crawl_state listing_url) listing_url =
        (fst (crawl_iteration quiet_env listing_selectors listing_controller
          (initial_crawl_state listing_url) listing_url),
         fst (snd (crawl_iteration quiet_env listing_selectors listing_controller
          (initial_crawl_state listing_url) listing_url)),
         snd (snd (crawl_iteration quiet_env listing_selectors listing_controller
          (initial_crawl_state listing_url) listing_url)))" by simp
  with t have "crawled (snd (snd (crawl_iteration quiet_env listing_selectors listing_controller
                        (initial_crawl_state listing_url) listing_url))) =
      crawled (initial_crawl_state listing_url) +
      (if page_extracted quiet_env listing_selectors listing_controller listing_url then 1 else 0)"
    by blast
  then have 3: "crawled (snd (snd (crawl_iteration quiet_env listing_selectors listing_controller
                        (initial_crawl_state listing_url) listing_url))) = 1"
    by (simp add: listing_page_extracted initial_crawl_state_def)
  from 1 2 3 show ?thesis by blast
qed

theorem has_next_page_iff_next_url_witness:
  "has_next_page (fst (crawl_jobs quiet_env broken_controller listing_url listing_selectors 3)) \<and>
   next_page_url (fst (crawl_jobs quiet_env broken_controller listing_url listing_selectors 3))
     = Some listing_url \<and>
   \<not> has_next_page (fst (crawl_jobs failing_env listing_controller listing_url listing_selectors 3)) \<and>
   next_page_url (fst (crawl_jobs failing_env listing_controller listing_url listing_selectors 3)) = None"
proof -
  have h: "env_agent_error quiet_env = None \<and> env_result_error quiet_env = None \<and>
       list_ex is_page_failure
         (errors (fst (crawl_jobs quiet_env broken_controller listing_url listing_selectors 3)))"
    by (simp add: broken_crawl) (simp add: quiet_env_def)
  from has_next_page_iff_next_url [of quiet_env broken_controller listing_url listing_selectors 3] h
  have 1: "has_next_page (fst (crawl_jobs quiet_env broken_controller listing_url listing_selectors 3))"
    by blast
  have 2: "next_page_url (fst (crawl_jobs quiet_env broken_controller listing_url listing_selectors 3))
     = Some listing_url" by (simp add: broken_crawl)
  have o: "env_agent_error failing_env \<noteq> None \<or> env_result_error failing_env \<noteq> None"
    by (simp add: failing_env_def)
  from has_next_page_iff_next_url [of failing_env listing_controller listing_url listing_selectors 3] o
  have 3: "\<not> has_next_page (fst (crawl_jobs failing_env listing_controller listing_url listing_selectors 3)) \<and>
   next_page_url (fst (crawl_jobs failing_env listing_controller listing_url listing_selectors 3)) = None"
    by blast
  from 1 2 3 show ?thesis by blast
qed

theorem success_iff_jobs_found_witness:
  "success (fst (crawl_jobs quiet_env listing_controller listing_url listing_selectors 3)) \<and>
   length (jobs (fst (crawl_jobs quiet_env listing_controller listing_url listing_selectors 3))) > 0"
proof -
  have a: "env_agent_error quiet_env = None" and r: "env_result_error quiet_env = None"
    by (simp_all add: quiet_env_def)
  have "length (jobs (fst (crawl_jobs quiet_env listing_controller listing_url listing_selectors 3))) > 0"
    by (simp add: listing_crawl)
  with success_iff_jobs_found [OF a r, of listing_controller listing_url listing_selectors 3]
  show ?thesis by blast
qed

lemma titled_record_saved:
  "save_crawl_results no_strptime (Some listing_session) None ''s1'' [titled_record]
     \<lparr>success = True, jobs = [titled_record], pages_crawled = 1, total_pages = None,
      errors = [], next_page_url = Some listing_url, has_next_page = True\<rparr> =
   Inr \<lparr>added_jobs = [],
        saved_session =
          \<lparr>session_ident = ''s1'', session_site_id = ''site'', status = Completed,
           session_pages_crawled = 1, jobs_found = 1, jobs_saved = 0, errors_count = 0\<rparr>\<rparr>"
  by code_simp

theorem success_without_accepted_counterexample:
  "success (fst (crawl_jobs quiet_env listing_controller listing_url listing_selectors 3)) \<and>
   save_crawl_results no_strptime (Some listing_session) None ''s1''
     (jobs (fst (crawl_jobs quiet_env listing_controller listing_url listing_selectors 3)))
     (fst (crawl_jobs quiet_env listing_controller listing_url listing_selectors 3)) =
   Inr \<lparr>added_jobs = [],
        saved_session =
          \<lparr>session_ident = ''s1'', session_site_id = ''site'', status = Completed,
           session_pages_crawled = 1, jobs_found = 1, jobs_saved = 0, errors_count = 0\<rparr>\<rparr>"
  by (simp add: listing_crawl titled_record_saved)

section \<open>Acceptance of records\<close>





section \<open>The stealth profile of a session\<close>

lemma load_page_anti_detection:
  "anti_detection (snd (load_page env ctrl url)) = anti_detection ctrl"
  by (simp add: load_page_def Let_def split: option.splits sum.splits)

lemma crawl_iteration_anti_detection:
  "anti_detection (fst (snd (crawl_iteration env sels ctrl st url))) = anti_detection ctrl"
proof (cases "load_page env ctrl url")
  case (Pair page_result c1)
  with load_page_anti_detection [of env ctrl url]
  have "anti_detection c1 = anti_detection ctrl" by simp
  with Pair show ?thesis
    by (simp add: crawl_iteration_def Let_def split: option.splits)
qed

lemma crawl_loop_anti_detection:
  "anti_detection (fst (crawl_loop env sels max_pages (ctrl, st))) = anti_detection ctrl"
proof (induction "nat (max_pages - crawled st)" arbitrary: ctrl st rule: less_induct)
  case less
  show ?case
  proof (cases "current_url st")
    case None
    then show ?thesis by (simp add: crawl_loop_unfold)
  next
    case (Some u)
    show ?thesis
    proof (cases "crawled st < max_pages \<and> u \<noteq> []")
      case False
      with Some show ?thesis by (auto simp: crawl_loop_unfold)
    next
      case True
      obtain flag c1 st1 where it: "crawl_iteration env sels ctrl st u = (flag, c1, st1)"
        by (cases "crawl_iteration env sels ctrl st u")
      from crawl_iteration_anti_detection [of env sels ctrl st u] it
      have keep: "anti_detection c1 = anti_detection ctrl" by simp
      show ?thesis
      proof (cases flag)
        case True
        with it have "crawled st1 = crawled st + 1" by (simp add: crawl_iteration_continues)
        with \<open>crawled st < max_pages \<and> u \<noteq> []\<close>
        have "nat (max_pages - crawled st1) < nat (max_pages - crawled st)" by simp
        from less.hyps [OF this] keep
        have "anti_detection (fst (crawl_loop env sels max_pages (c1, st1))) = anti_detection ctrl"
          by simp
        with Some \<open>crawled st < max_pages \<and> u \<noteq> []\<close> it True show ?thesis
          by (simp add: crawl_loop_unfold [of env sels max_pages ctrl st])
      next
        case False
        with Some \<open>crawled st < max_pages \<and> u \<noteq> []\<close> it keep show ?thesis
          by (simp add: crawl_loop_unfold [of env sels max_pages ctrl st])
      qed
    qed
  qed
qed

lemma crawl_jobs_anti_detection:
  "anti_detection (snd (crawl_jobs env ctrl url sels max_pages)) = anti_detection ctrl"
proof (cases "env_agent_error env")
  case (Some e)
  then show ?thesis by (simp add: crawl_jobs_def)
next
  case None
  obtain c' st' where loop: "crawl_loop env sels max_pages (ctrl, initial_crawl_state url) = (c', st')"
    by (cases "crawl_loop env sels max_pages (ctrl, initial_crawl_state url)")
  from crawl_loop_anti_detection [of env sels max_pages ctrl "initial_crawl_state url"] loop
  have "anti_detection c' = anti_detection ctrl" by simp
  with None loop show ?thesis
    by (cases "env_result_error env") (simp_all add: crawl_jobs_def)
qed

lemma stealth_fingerprint:
  assumes "\<forall>op. stealth_error fresh op = None"
    and "user_agent_rotation (env_settings env)"
    and "user_agents mgr \<noteq> []" and "viewport_sizes mgr \<noteq> []"
  shows "page_fingerprint (apply_stealth_measures env k mgr fresh) =
     \<lparr>fp_user_agent =
        Some (user_agents mgr ! (env_random_draw env k UserAgentChoice mod length (user_agents mgr))),
      fp_viewport =
        Some (viewport_sizes mgr ! (env_random_draw env k ViewportChoice mod length (viewport_sizes mgr))),
      fp_timezone =
        Some (stealth_timezones ! (env_random_draw env k TimezoneChoice mod length stealth_timezones)),
      fp_geolocation =
        Some (stealth_locations ! (env_random_draw env k LocationChoice mod length stealth_locations))\<rparr>"
proof -
  have tz: "stealth_timezones \<noteq> []" and loc: "stealth_locations \<noteq> []"
    by (simp_all add: stealth_timezones_def stealth_locations_def)
  show ?thesis
    using assms tz loc
    by (simp add: apply_stealth_measures_def user_agent_step_def viewport_step_def
        init_script_step_def timezone_step_def geolocation_step_def page_call_def
        random_choice_def page_fingerprint_def stealth_headers_def)
qed

text \<open>
  Claim C5 (amended).  The behaviour pattern is drawn once, when the manager is
  constructed, and the manager that holds it is left unchanged by every page load and by
  a whole traversal, so the pattern stays for the session.  The fingerprint is not held: every page load writes to
  the new page the user agent (when rotation is on), viewport, timezone and geolocation
  drawn for that load, so the page a controller holds after a load shows the identity
  given by that load's draws.
\<close>

theorem behavior_held_fingerprint_per_load:
  "new_anti_detection_manager r =
     Inr \<lparr>user_agents = default_user_agents, viewport_sizes = default_viewport_sizes,
          behavior_patterns = default_behavior_patterns,
          current_behavior =
            default_behavior_patterns ! (r mod length default_behavior_patterns)\<rparr>
   \<and> anti_detection (snd (load_page env ctrl url)) = anti_detection ctrl
   \<and> anti_detection (snd (crawl_jobs env ctrl url sels max_pages)) = anti_detection ctrl
   \<and> (browser ctrl = Some b \<and> new_page b (pages_opened b) = Inr fresh \<and>
       (\<forall>op. stealth_error fresh op = None) \<and> user_agent_rotation (env_settings env) \<and>
       user_agents (anti_detection ctrl) \<noteq> [] \<and> viewport_sizes (anti_detection ctrl) \<noteq> [] \<longrightarrow>
         session_fingerprint (snd (load_page env ctrl url)) =
           Some \<lparr>fp_user_agent =
                   Some (user_agents (anti_detection ctrl) !
                          (env_random_draw env (pages_opened b) UserAgentChoice
                             mod length (user_agents (anti_detection ctrl)))),
                 fp_viewport =
                   Some (viewport_sizes (anti_detection ctrl) !
                          (env_random_draw env (pages_opened b) ViewportChoice
                             mod length (viewport_sizes (anti_detection ctrl)))),
                 fp_timezone =
                   Some (stealth_timezones !
                          (env_random_draw env (pages_opened b) TimezoneChoice
                             mod length stealth_timezones)),
                 fp_geolocation =
                   Some (stealth_locations !
                          (env_random_draw env (pages_opened b) LocationChoice
                             mod length stealth_locations))\<rparr>)"
proof (intro conjI impI)
  show "new_anti_detection_manager r =
     Inr \<lparr>user_agents = default_user_agents, viewport_sizes = default_viewport_sizes,
          behavior_patterns = default_behavior_patterns,
          current_behavior =
            default_behavior_patterns ! (r mod length default_behavior_patterns)\<rparr>"
    by (simp add: new_anti_detection_manager_def random_choice_def default_behavior_patterns_def)
  show "anti_detection (snd (load_page env ctrl url)) = anti_detection ctrl"
    by (rule load_page_anti_detection)
  show "anti_detection (snd (crawl_jobs env ctrl url sels max_pages)) = anti_detection ctrl"
    by (rule crawl_jobs_anti_detection)
next
  assume h: "browser ctrl = Some b \<and> new_page b (pages_opened b) = Inr fresh \<and>
       (\<forall>op. stealth_error fresh op = None) \<and> user_agent_rotation (env_settings env) \<and>
       user_agents (anti_detection ctrl) \<noteq> [] \<and> viewport_sizes (anti_detection ctrl) \<noteq> []"
  then have fp: "page_fingerprint
      (apply_stealth_measures env (pages_opened b) (anti_detection ctrl) fresh) =
     \<lparr>fp_user_agent =
        Some (user_agents (anti_detection ctrl) !
               (env_random_draw env (pages_opened b) UserAgentChoice
                  mod length (user_agents (anti_detection ctrl)))),
      fp_viewport =
        Some (viewport_sizes (anti_detection ctrl) !
               (env_random_draw env (pages_opened b) ViewportChoice
                  mod length (viewport_sizes (anti_detection ctrl)))),
      fp_timezone =
        Some (stealth_timezones !
               (env_random_draw env (pages_opened b) TimezoneChoice mod length stealth_timezones)),
      fp_geolocation =
        Some (stealth_locations !
               (env_random_draw env (pages_opened b) LocationChoice mod length stealth_locations))\<rparr>"
    by (intro stealth_fingerprint) simp_all
  from h have "current_page (snd (load_page env ctrl url)) =
      Some (apply_stealth_measures env (pages_opened b) (anti_detection ctrl) fresh)"
    by (simp add: load_page_def Let_def split: option.splits sum.splits)
  with fp show "session_fingerprint (snd (load_page env ctrl url)) =
           Some \<lparr>fp_user_agent =
                   Some (user_agents (anti_detection ctrl) !
                          (env_random_draw env (pages_opened b) UserAgentChoice
                             mod length (user_agents (anti_detection ctrl)))),
                 fp_viewport =
                   Some (viewport_sizes (anti_detection ctrl) !
                          (env_random_draw env (pages_opened b) ViewportChoice
                             mod length (viewport_sizes (anti_detection ctrl)))),
                 fp_timezone =
                   Some (stealth_timezones !
                          (env_random_draw env (pages_opened b) TimezoneChoice
                             mod length stealth_timezones)),
                 fp_geolocation =
                   Some (stealth_locations !
                          (env_random_draw env (pages_opened b) LocationChoice
                             mod length stealth_locations))\<rparr>"
    by (simp add: session_fingerprint_def)
qed

theorem behavior_held_fingerprint_per_load_witness:
  "map_option fp_viewport (session_fingerprint (snd (load_page quiet_env listing_controller listing_url)))
     = Some (Some (1920, 1080))"
proof -
  have h: "browser listing_controller = Some \<lparr>new_page = (\<lambda>k. Inr listing_page), pages_opened = 0\<rparr> \<and>
       new_page \<lparr>new_page = (\<lambda>k. Inr listing_page), pages_opened = 0\<rparr>
         (pages_opened \<lparr>new_page = (\<lambda>k. Inr listing_page), pages_opened = 0\<rparr>) = Inr listing_page \<and>
       (\<forall>op. stealth_error listing_page op = None) \<and> user_agent_rotation (env_settings quiet_env) \<and>
       user_agents (anti_detection listing_controller) \<noteq> [] \<and>
       viewport_sizes (anti_detection listing_controller) \<noteq> []"
    by (simp add: listing_controller_def listing_page_def quiet_env_def sample_manager_def
        default_user_agents_def default_viewport_sizes_def)
  from behavior_held_fingerprint_per_load
         [of 0 quiet_env listing_controller listing_url listing_selectors 3
             "\<lparr>new_page = (\<lambda>k. Inr listing_page), pages_opened = 0\<rparr>" listing_page] h
  have "session_fingerprint (snd (load_page quiet_env listing_controller listing_url)) =
           Some \<lparr>fp_user_agent =
                   Some (user_agents (anti_detection listing_controller) !
                          (env_random_draw quiet_env 0 UserAgentChoice
                             mod length (user_agents (anti_detection listing_controller)))),
                 fp_viewport =
                   Some (viewport_sizes (anti_detection listing_controller) !
                          (env_random_draw quiet_env 0 ViewportChoice
                             mod length (viewport_sizes (anti_detection listing_controller)))),
                 fp_timezone =
                   Some (stealth_timezones !
                          (env_random_draw quiet_env 0 TimezoneChoice
                             mod length stealth_timezones)),
                 fp_geolocation =
                   Some (stealth_locations !
                          (env_random_draw quiet_env 0 LocationChoice
                             mod length stealth_locations))\<rparr>"
    by simp
  then show ?thesis
    by (simp add: listing_controller_def quiet_env_def sample_manager_def default_viewport_sizes_def)
qed

theorem fingerprint_redrawn_counterexample:
  "map_option fp_viewport
     (session_fingerprint (snd (load_page quiet_env listing_controller listing_url)))
     = Some (Some (1920, 1080)) \<and>
   map_option fp_viewport
     (session_fingerprint
        (snd (load_page quiet_env (snd (load_page quiet_env listing_controller listing_url))
                listing_url)))
     = Some (Some (1366, 768)) \<and>
   map_option fp_user_agent
     (session_fingerprint (snd (load_page quiet_env listing_controller listing_url)))
     = Some (Some (default_user_agents ! 0)) \<and>
   map_option fp_user_agent
     (session_fingerprint
        (snd (load_page quiet_env (snd (load_page quiet_env listing_controller listing_url))
                listing_url)))
     = Some (Some (default_user_agents ! 1)) \<and>
   default_user_agents ! 0 \<noteq> default_user_agents ! 1"
  by code_simp

end
